theory Spec2Isabelle
  imports Complex_Main "HOL-Library.Word"
begin

unbundle bit_operations_syntax

section \<open>The GPAC reframer filter (src/filters/reframer.c)\<close>

text \<open>
  A shallow embedding of the pure parts of the reframer: the range-boundary
  parser, the packet range classifier, the raw-audio copy, the emission and
  timestamp-rewrite stage, the range transition and the alignment engine.
  C's \<open>u8\<close>, \<open>u32\<close> and \<open>u64\<close> are words, so that every sum and product
  wraps as it does in C; an \<open>s64\<close> is a 64-bit word read with \<open>sint\<close>.
\<close>

type_synonym u8 = "8 word"
type_synonym u32 = "32 word"
type_synonym u64 = "64 word"

subsection \<open>Enumerations and the rational time type\<close>

datatype rt_mode = REFRAME_RT_OFF | REFRAME_RT_ON | REFRAME_RT_SYNC

datatype round_mode = REFRAME_ROUND_BEFORE | REFRAME_ROUND_AFTER | REFRAME_ROUND_CLOSEST

datatype range_kind = RANGE_NONE | RANGE_CLOSED | RANGE_OPEN | RANGE_DONE

datatype extract_kind = EXTRACT_NONE | EXTRACT_RANGE | EXTRACT_SAP | EXTRACT_SIZE | EXTRACT_DUR

text \<open>
  \<open>GF_Fraction64\<close> is declared in a header of the library, not in the filter:
  a signed 64-bit numerator and an unsigned 64-bit denominator (the filter
  reads them with the formats \<open>LLD\<close> and \<open>LLU\<close>). The numerator is kept as a
  word and read with \<open>sint\<close> where the C code compares it as signed.
\<close>

record GF_Fraction64 =
  num :: u64
  den :: u64

definition RT_PRECISION_US :: u64 where
  "RT_PRECISION_US = 2000"

subsection \<open>Double-precision numbers\<close>

text \<open>
  The option \<open>speed\<close> is a C \<open>double\<close>. A double is modelled as the real
  number it denotes, or one of the two infinities, or a NaN; the sign of a
  zero is not kept. Every operation gives the exact result rounded to the
  nearest double, ties to the even significand (IEEE 754 binary64: 53
  significant bits, exponents of the last bit from -1074 to 971).
\<close>

datatype double = Finite real | PlusInf | MinusInf | NaN

text \<open>The number of binary digits of a positive integer.\<close>

function bit_length :: "int \<Rightarrow> int" where
  "bit_length n = (if n \<le> 0 then 0 else 1 + bit_length (n div 2))"
  by auto

termination
  by (relation "measure nat") auto

declare bit_length.simps [simp del]

definition pow2 :: "int \<Rightarrow> real" where
  "pow2 e = (if 0 \<le> e then 2 ^ nat e else 1 / 2 ^ nat (- e))"

text \<open>For \<open>a > 0\<close>, the exponent \<open>k\<close> with \<open>2\<^sup>k \<le> a < 2\<^sup>k\<^sup>+\<^sup>1\<close>.\<close>

definition ilog2 :: "real \<Rightarrow> int" where
  "ilog2 a = (if 1 \<le> a then bit_length \<lfloor>a\<rfloor> - 1 else - bit_length (\<lceil>1 / a\<rceil> - 1))"

text \<open>The nearest integer, the even one of the two when they are equally near.\<close>

definition round_even :: "real \<Rightarrow> int" where
  "round_even y =
     (let f = \<lfloor>y\<rfloor>; r = y - of_int f
      in if r < 1 / 2 then f else if 1 / 2 < r then f + 1
         else if even f then f else f + 1)"

text \<open>
  The double nearest to a real: the significand is rounded at the exponent
  \<open>e\<close> of its last bit, which is 52 below the exponent of the number and not
  below -1074; a result of \<open>2\<^sup>1\<^sup>0\<^sup>2\<^sup>4\<close> or more is an infinity.
\<close>

definition round_double :: "real \<Rightarrow> double" where
  "round_double r =
     (if r = 0 then Finite 0
      else
        (let a = \<bar>r\<bar>;
             e = max (ilog2 a - 52) (- 1074);
             v = of_int (round_even (a / pow2 e)) * pow2 e
         in if 2 ^ 1024 \<le> v then (if 0 < r then PlusInf else MinusInf)
            else Finite (if 0 < r then v else - v)))"

text \<open>The conversion of a \<open>u64\<close> to a double, the division, the opposite and the two tests.\<close>

definition double_of_u64 :: "u64 \<Rightarrow> double" where
  "double_of_u64 x = round_double (of_int (uint x))"

fun double_div :: "double \<Rightarrow> double \<Rightarrow> double" where
  "double_div (Finite x) (Finite y) =
     (if y = 0 then (if x = 0 then NaN else if 0 < x then PlusInf else MinusInf)
      else round_double (x / y))"
| "double_div (Finite x) PlusInf = Finite 0"
| "double_div (Finite x) MinusInf = Finite 0"
| "double_div PlusInf (Finite y) = (if 0 \<le> y then PlusInf else MinusInf)"
| "double_div MinusInf (Finite y) = (if 0 \<le> y then MinusInf else PlusInf)"
| "double_div x y = NaN"

fun double_neg :: "double \<Rightarrow> double" where
  "double_neg (Finite x) = Finite (- x)"
| "double_neg PlusInf = MinusInf"
| "double_neg MinusInf = PlusInf"
| "double_neg NaN = NaN"

fun double_gt0 :: "double \<Rightarrow> bool" where
  "double_gt0 (Finite x) = (0 < x)"
| "double_gt0 PlusInf = True"
| "double_gt0 x = False"

fun double_lt0 :: "double \<Rightarrow> bool" where
  "double_lt0 (Finite x) = (x < 0)"
| "double_lt0 MinusInf = True"
| "double_lt0 x = False"

text \<open>
  The cast of a double to \<open>u64\<close> drops the fraction. C leaves the cast
  undefined when the value without its fraction is not a \<open>u64\<close>; the model
  takes the value modulo \<open>2\<^sup>6\<^sup>4\<close> there, and 0 for an infinity or a NaN.
\<close>

fun u64_of_double :: "double \<Rightarrow> u64" where
  "u64_of_double (Finite x) = (if x < 0 then word_of_int \<lceil>x\<rceil> else word_of_int \<lfloor>x\<rfloor>)"
| "u64_of_double x = 0"

subsection \<open>The range-boundary parser: clock times\<close>

text \<open>
  \<open>sscanf\<close> belongs to the C library. The model covers what the filter's
  formats use: an ordinary character of the format must be the next input
  character, and \<open>%u\<close> skips white space, takes an optional sign and then at
  least one decimal digit. Every conversion is stored as soon as it succeeds;
  the call returns the number of conversions stored, so a call that fails
  half-way has already written the variables of its first conversions.
  The result of \<open>sscanf\<close> is modelled as the list of the values stored, in
  the order of the arguments.
\<close>

datatype directive = Lit char | ConvU

definition isspace :: "char \<Rightarrow> bool" where
  "isspace c = (c \<in> set [CHR '' '', CHR 0x09, CHR 0x0A, CHR 0x0B, CHR 0x0C, CHR 0x0D])"

definition isdigit :: "char \<Rightarrow> bool" where
  "isdigit c = (48 \<le> (of_char c :: nat) \<and> (of_char c :: nat) \<le> 57)"

definition digit_val :: "char \<Rightarrow> nat" where
  "digit_val c = of_char c - 48"

fun scan_digits :: "string \<Rightarrow> nat \<Rightarrow> nat \<times> string" where
  "scan_digits [] acc = (acc, [])"
| "scan_digits (c # cs) acc =
     (if isdigit c then scan_digits cs (acc * 10 + digit_val c) else (acc, c # cs))"

definition conv_u :: "string \<Rightarrow> (u32 \<times> string) option" where
  "conv_u s =
     (let s1 = dropWhile isspace s;
          neg = (case s1 of [] \<Rightarrow> False | c # _ \<Rightarrow> c = CHR ''-'');
          s2 = (case s1 of [] \<Rightarrow> []
                | c # cs \<Rightarrow> if c = CHR ''-'' \<or> c = CHR ''+'' then cs else s1)
      in case s2 of
           [] \<Rightarrow> None
         | c # _ \<Rightarrow>
             if isdigit c
             then (case scan_digits s2 0 of
                     (n, rest) \<Rightarrow> Some (if neg then - of_nat n else of_nat n, rest))
             else None)"

fun sscanf :: "string \<Rightarrow> directive list \<Rightarrow> u32 list" where
  "sscanf s [] = []"
| "sscanf s (Lit c # ds) =
     (case s of [] \<Rightarrow> [] | x # xs \<Rightarrow> if x = c then sscanf xs ds else [])"
| "sscanf s (ConvU # ds) =
     (case conv_u s of None \<Rightarrow> [] | Some (v, rest) \<Rightarrow> v # sscanf rest ds)"

text \<open>The variable an argument points to after a call: the value stored, if the call got that far.\<close>

definition stored :: "u32 list \<Rightarrow> nat \<Rightarrow> u32 \<Rightarrow> u32" where
  "stored vs i old = (if i < length vs then vs ! i else old)"

definition fmt_hmsms :: "directive list" where
  "fmt_hmsms = [Lit CHR ''T'', ConvU, Lit CHR '':'', ConvU, Lit CHR '':'', ConvU, Lit CHR ''.'', ConvU]"

definition fmt_msms :: "directive list" where
  "fmt_msms = [Lit CHR ''T'', ConvU, Lit CHR '':'', ConvU, Lit CHR ''.'', ConvU]"

definition fmt_sms :: "directive list" where
  "fmt_sms = [Lit CHR ''T'', ConvU, Lit CHR ''.'', ConvU]"

definition fmt_hms :: "directive list" where
  "fmt_hms = [Lit CHR ''T'', ConvU, Lit CHR '':'', ConvU, Lit CHR '':'', ConvU]"

definition fmt_ms :: "directive list" where
  "fmt_ms = [Lit CHR ''T'', ConvU, Lit CHR '':'', ConvU]"

record parsed_date =
  pd_ok :: bool
  pd_value :: GF_Fraction64
  pd_frame_idx_plus_one :: u64
  pd_extract_mode :: extract_kind

text \<open>
  The clock-time branch of \<open>reframer_parse_date\<close> (\<open>date[0] == 'T'\<close>): the four
  variables \<open>h\<close>, \<open>m\<close>, \<open>s\<close>, \<open>ms\<close> start at 0 and are threaded through the
  attempts in the order of the source. \<open>None\<close> is the jump to \<open>exit\<close>.
\<close>

definition parse_clock :: "string \<Rightarrow> (u32 \<times> u32 \<times> u32 \<times> u32) option" where
  "parse_clock date =
     (if CHR ''.'' \<in> set date then
        (let v1 = sscanf date fmt_hmsms;
             h = stored v1 0 0; m = stored v1 1 0; s = stored v1 2 0; ms = stored v1 3 0
         in if length v1 \<noteq> 4 then
              (let v2 = sscanf date fmt_msms;
                   m = stored v2 0 m; s = stored v2 1 s; ms = stored v2 2 ms
               in if length v2 \<noteq> 3 then
                    (let v3 = sscanf date fmt_sms;
                         s = stored v3 0 s; ms = stored v3 1 ms
                     in if length v3 \<noteq> 2 then None
                        else Some (h, m, s, if ms \<ge> 1000 then 0 else ms))
                  else Some (h, m, s, if ms \<ge> 1000 then 0 else ms))
            else Some (h, m, s, if ms \<ge> 1000 then 0 else ms))
      else
        (let v1 = sscanf date fmt_hms;
             h = stored v1 0 0; m = stored v1 1 0; s = stored v1 2 0
         in if length v1 \<noteq> 3 then
              (let v2 = sscanf date fmt_ms;
                   m = stored v2 0 m; s = stored v2 1 s
               in if length v2 \<noteq> 2 then None else Some (h, m, s, 0))
            else Some (h, m, s, 0)))"

text \<open>
  \<open>reframer_parse_date\<close>. The branches after the clock time (frame index,
  \<open>SAP\<close>/\<open>RAP\<close>, duration, size, plain fraction; lines 336-372) call \<open>atoi\<close>,
  \<open>gf_props_parse_value\<close> and \<open>gf_parse_lfrac\<close>, which are not part of the
  filter: they are the parameter \<open>parse_other\<close>. \<open>fidx\<close> is the value
  \<open>*frame_idx_plus_one\<close> holds at the call; \<open>pd_extract_mode\<close> is what is
  written to \<open>*extract_mode\<close> when that pointer is not null.
\<close>

definition reframer_parse_date ::
  "(string \<Rightarrow> u64 \<Rightarrow> parsed_date) \<Rightarrow> string \<Rightarrow> u64 \<Rightarrow> parsed_date" where
  "reframer_parse_date parse_other date fidx =
     (case date of
        [] \<Rightarrow> parse_other date fidx
      | c # _ \<Rightarrow>
          if c = CHR ''T'' then
            (case parse_clock date of
               None \<Rightarrow> \<lparr>pd_ok = False, pd_value = \<lparr>num = 0, den = 0\<rparr>,
                         pd_frame_idx_plus_one = fidx, pd_extract_mode = EXTRACT_NONE\<rparr>
             | Some (h, m, s, ms) \<Rightarrow>
                 (let v = (ucast (h * 3600 + m * 60 + s) :: u64);
                      v = v * 1000;
                      v = v + ucast ms
                  in \<lparr>pd_ok = True, pd_value = \<lparr>num = v, den = 1000\<rparr>,
                       pd_frame_idx_plus_one = fidx, pd_extract_mode = EXTRACT_RANGE\<rparr>))
          else parse_other date fidx)"

subsection \<open>Packets, streams and the filter context\<close>

text \<open>
  What can go wrong inside the modelled functions: a division by a zero
  timescale, sample rate or denominator, a copy outside a buffer, and the use
  of a packet that is not there.
\<close>

datatype fault = DivByZero | OutOfBounds | NullPacket

text \<open>
  A packet of the host pipeline, as far as the filter reads it. \<open>pck_ref\<close> is
  the handle: the filter compares packets by pointer (\<open>pck == st->split_pck\<close>).
  The data size of a packet is the length of \<open>pck_data\<close>.
\<close>

record GF_FilterPacket =
  pck_ref :: nat
  pck_dts :: u64
  pck_cts :: u64
  pck_dur :: u32
  pck_sap :: u32
  pck_deps :: u8
  pck_data :: "u8 list"

text \<open>
  A packet sent on an output pid. A byte of \<open>o_data\<close> is \<open>None\<close> when the filter
  allocated it and never wrote it. \<open>o_filenum\<close> and \<open>o_filesuf\<close> are the two
  boundary properties set on the first packet of a range.
\<close>

record out_packet =
  o_src :: nat
  o_cts :: u64
  o_dts :: u64
  o_dur :: u32
  o_data :: "u8 option list"
  o_filenum :: "u32 option"
  o_filesuf :: "string option"

text \<open>
  \<open>RTStream\<close>. \<open>ipid_pending\<close> stands for the packets waiting on the input pid
  (\<open>gf_filter_pid_drop_packet\<close> removes the first) and \<open>opid_sent\<close> for the
  packets sent on the output pid, oldest first; \<open>ipid_eos\<close> is what
  \<open>gf_filter_pid_is_eos\<close> answers for the input pid and \<open>opid_eos\<close> whether
  the end of stream was signalled on the output pid.
\<close>

record RTStream =
  timescale :: u32
  cts_us_at_init :: u64
  sys_clock_at_init :: u64
  nb_frames :: u32
  can_split :: bool
  all_saps :: bool
  ts_at_range_start_plus_one :: u64
  ts_at_range_end :: u64
  pck_queue :: "GF_FilterPacket list"
  range_start_computed :: u32
  range_end_reached_ts :: u64
  first_pck_sent :: bool
  tk_delay :: u64
  in_eos :: bool
  split_start :: u32
  split_end :: u32
  split_pck :: "GF_FilterPacket option"
  reinsert_single_pck :: "GF_FilterPacket option"
  codec_id :: u32
  stream_type :: u32
  nb_ch :: u32
  sample_rate :: u32
  abps :: u32
  audio_planar :: bool
  audio_samples_to_keep :: u32
  is_playing :: bool
  ipid_pending :: "GF_FilterPacket list"
  ipid_eos :: bool
  opid_sent :: "out_packet list"
  opid_eos :: bool

text \<open>
  \<open>GF_ReframerCtx\<close>. \<open>clock\<close> is the index of the reference stream in the
  stream list (the C field is a pointer into it).
\<close>

record GF_ReframerCtx =
  frames :: "u32 list"
  saps :: "u32 list"
  refs :: bool
  speed :: double
  xs :: "string list"
  xe :: "string list"
  rt :: rt_mode
  raw :: bool
  tcmdrw :: bool
  xround :: round_mode
  clock :: "nat option"
  reschedule_in :: u64
  clock_val :: u64
  range_type :: range_kind
  cur_range_idx :: u32
  cur_start :: GF_Fraction64
  cur_end :: GF_Fraction64
  start_frame_idx_plus_one :: u64
  end_frame_idx_plus_one :: u64
  in_range :: bool
  is_range_extraction :: bool
  filter_sap1 :: bool
  filter_sap2 :: bool
  filter_sap3 :: bool
  filter_sap4 :: bool
  filter_sap_none :: bool
  extract_dur :: GF_Fraction64
  extract_mode :: extract_kind
  file_idx :: u32
  min_ts_computed :: u64
  min_ts_scale :: u32
  split_size :: u64
  est_file_size :: u64
  prev_min_ts_computed :: u64
  prev_min_ts_scale :: u32
  gop_depth :: u32
  nb_video_frames_since_start_at_range_start :: u32
  nb_video_frames_since_start :: u32

text \<open>
  What the filter takes from the rest of the library. The constants are
  named by the filter but defined in headers outside it. \<open>file_suffix\<close>
  stands for the text of the \<open>FileSuffix\<close> property, which the filter builds
  with \<open>sprintf\<close> and \<open>gf_dynstrcat\<close> from the boundary strings, the range
  index, the range type, the extraction mode and the two boundaries. Nothing
  below depends on what they are.
\<close>

record gpac_env =
  GF_FILTER_NO_TS :: u64
  GF_CODECID_TMCD :: u32
  GF_STREAM_VISUAL :: u32
  GF_FILTER_SAP_1 :: u32
  GF_FILTER_SAP_2 :: u32
  GF_FILTER_SAP_3 :: u32
  GF_FILTER_SAP_4 :: u32
  GF_FILTER_SAP_4_PROL :: u32
  file_suffix ::
    "string list \<Rightarrow> string list \<Rightarrow> u32 \<Rightarrow> range_kind \<Rightarrow> extract_kind
      \<Rightarrow> GF_Fraction64 \<Rightarrow> GF_Fraction64 \<Rightarrow> fault + string"

subsection \<open>The packet range classifier\<close>

text \<open>
  The two cross-multiplied tests of \<open>reframer_check_pck_range\<close>, as the C
  expressions compute them: the left product is unsigned and cast to \<open>s64\<close>,
  the right product is signed, and the comparison is signed.
\<close>

definition ts_before_start :: "GF_ReframerCtx \<Rightarrow> RTStream \<Rightarrow> u64 \<Rightarrow> bool" where
  "ts_before_start ctx st ts =
     (sint (ts * den (cur_start ctx)) < sint (num (cur_start ctx) * ucast (timescale st)))"

definition ts_after_end :: "GF_ReframerCtx \<Rightarrow> RTStream \<Rightarrow> u64 \<Rightarrow> u32 \<Rightarrow> bool" where
  "ts_after_end ctx st ts dur =
     (sint ((ts + ucast dur) * den (cur_end ctx)) > sint (num (cur_end ctx) * ucast (timescale st)))"

text \<open>
  The number of audio samples from \<open>ts\<close> to a boundary \<open>b\<close>, in the stream's
  sample rate: \<open>b.num * timescale / b.den - ts\<close>, an unsigned division, then
  rescaled when the sample rate is not the timescale.
\<close>

definition samples_to_boundary :: "GF_Fraction64 \<Rightarrow> RTStream \<Rightarrow> u64 \<Rightarrow> fault + u32" where
  "samples_to_boundary b st ts =
     (if den b = 0 then Inl DivByZero
      else
        (let nb_samp = (num b * ucast (timescale st)) div den b - ts
         in if timescale st \<noteq> sample_rate st then
              (if timescale st = 0 then Inl DivByZero
               else Inr (ucast ((nb_samp * ucast (sample_rate st)) div ucast (timescale st))))
            else Inr (ucast nb_samp)))"

text \<open>
  \<open>reframer_check_pck_range\<close>: the result is the returned code (0 before the
  range, 1 inside, 2 at or past its end) and the value left in
  \<open>*nb_audio_samples_to_keep\<close>, which holds \<open>keep\<close> at the call.
\<close>

definition reframer_check_pck_range ::
  "GF_ReframerCtx \<Rightarrow> RTStream \<Rightarrow> u64 \<Rightarrow> u32 \<Rightarrow> u32 \<Rightarrow> u32 \<Rightarrow> fault + (u32 \<times> u32)" where
  "reframer_check_pck_range ctx st ts dur frame_idx keep =
     (if start_frame_idx_plus_one ctx \<noteq> 0 then
        (if ucast frame_idx < start_frame_idx_plus_one ctx then Inr (0, keep)
         else if range_type ctx \<noteq> RANGE_OPEN \<and> ucast frame_idx \<ge> end_frame_idx_plus_one ctx
         then Inr (2, keep)
         else Inr (1, keep))
      else
        (case
           (if ts_before_start ctx st ts then
              (if abps st \<noteq> 0 \<and>
                  sint ((ts + ucast dur) * den (cur_start ctx))
                    > sint (num (cur_start ctx) * ucast (timescale st))
               then (case samples_to_boundary (cur_start ctx) st ts of
                       Inl e \<Rightarrow> Inl e
                     | Inr n \<Rightarrow> Inr (False, n))
               else Inr (True, keep))
            else Inr (False, keep))
         of
           Inl e \<Rightarrow> Inl e
         | Inr (before, keep1) \<Rightarrow>
             (case
                (if range_type ctx \<noteq> RANGE_OPEN \<and> ts_after_end ctx st ts dur then
                   (if abps st \<noteq> 0 \<and>
                       sint (ts * den (cur_end ctx))
                         < sint (num (cur_end ctx) * ucast (timescale st))
                    then (case samples_to_boundary (cur_end ctx) st ts of
                            Inl e \<Rightarrow> Inl e
                          | Inr n \<Rightarrow> Inr (True, n))
                    else Inr (True, keep1))
                 else Inr (False, keep1))
              of
                Inl e \<Rightarrow> Inl e
              | Inr (after, keep2) \<Rightarrow>
                  if before then (if \<not> after then Inr (0, keep2) else Inr (2, keep2))
                  else if after then Inr (2, keep2)
                  else Inr (1, keep2))))"

subsection \<open>Copying raw audio\<close>

text \<open>
  \<open>memcpy\<close> between two buffers, with C's contract made explicit: the source
  range must lie inside the source and the destination range inside the
  destination, otherwise the copy is a fault.
\<close>

definition memcpy :: "u8 option list \<Rightarrow> nat \<Rightarrow> u8 list \<Rightarrow> nat \<Rightarrow> nat \<Rightarrow> fault + u8 option list" where
  "memcpy dst d src s n =
     (if s + n \<le> length src \<and> d + n \<le> length dst
      then Inr (take d dst @ map Some (take n (drop s src)) @ drop (d + n) dst)
      else Inl OutOfBounds)"

text \<open>The loop over the channel planes: \<open>i\<close> runs over the channels still to copy.\<close>

fun copy_planes ::
  "(u8 option list \<Rightarrow> nat \<Rightarrow> fault + u8 option list) \<Rightarrow> nat list \<Rightarrow> u8 option list
    \<Rightarrow> fault + u8 option list" where
  "copy_planes f [] dst = Inr dst"
| "copy_planes f (i # is) dst =
     (case f dst i of Inl e \<Rightarrow> Inl e | Inr dst' \<Rightarrow> copy_planes f is dst')"

text \<open>
  \<open>reframer_copy_raw_audio\<close>: \<open>src\<close> is the packet data, \<open>dst\<close> the buffer just
  allocated; offsets and lengths are the \<open>u32\<close> products of the source.
\<close>

definition reframer_copy_raw_audio ::
  "RTStream \<Rightarrow> u8 list \<Rightarrow> u32 \<Rightarrow> u32 \<Rightarrow> u8 option list \<Rightarrow> u32 \<Rightarrow> fault + u8 option list" where
  "reframer_copy_raw_audio st src src_size offset dst nb_samp =
     (if audio_planar st then
        (if nb_ch st = 0 then Inl DivByZero
         else
           (let stride = src_size div nb_ch st;
                bps = abps st div nb_ch st
            in copy_planes
                 (\<lambda>d i. memcpy d (unat (of_nat i * bps * nb_samp)) src
                           (unat (of_nat i * stride + offset * bps)) (unat (nb_samp * bps)))
                 [0 ..< unat (nb_ch st)] dst))
      else memcpy dst 0 src (unat (offset * abps st)) (unat (nb_samp * abps st)))"

subsection \<open>Real-time regulation\<close>

text \<open>
  The first block of \<open>reframer_send_packet\<close> (lines 598-645). The streams are
  a store indexed by stream, since the block may replace \<open>st\<close> by the clock
  stream \<open>ctx->clock\<close>: the result carries the index \<open>st\<close> denotes afterwards.
\<close>

text \<open>
  Lines 627-628: the elapsed media time divided by the speed, or by its
  opposite when the speed is negative, as doubles, and cast back to \<open>u64\<close>.
\<close>

definition speed_scale :: "GF_ReframerCtx \<Rightarrow> u64 \<Rightarrow> u64" where
  "speed_scale ctx diff =
     (if double_gt0 (speed ctx) then u64_of_double (double_div (double_of_u64 diff) (speed ctx))
      else if double_lt0 (speed ctx)
      then u64_of_double (double_div (double_of_u64 diff) (double_neg (speed ctx)))
      else diff)"

definition rt_regulate ::
  "gpac_env \<Rightarrow> GF_ReframerCtx \<Rightarrow> (nat \<Rightarrow> RTStream) \<Rightarrow> nat \<Rightarrow> GF_FilterPacket
    \<Rightarrow> fault + (bool \<times> GF_ReframerCtx \<times> (nat \<Rightarrow> RTStream) \<times> nat)" where
  "rt_regulate K ctx sts sid pck =
     (if rt ctx = REFRAME_RT_OFF then Inr (True, ctx, sts, sid)
      else
        (let cts_us = pck_dts pck;
             cts_us = (if cts_us = GF_FILTER_NO_TS K then pck_cts pck else cts_us)
         in if cts_us = GF_FILTER_NO_TS K then Inr (True, ctx, sts, sid)
            else if timescale (sts sid) = 0 then Inl DivByZero
            else
              (let clk = clock_val ctx;
                   cts_us = cts_us + tk_delay (sts sid);
                   cts_us = cts_us * 1000000;
                   cts_us = cts_us div ucast (timescale (sts sid));
                   ctx1 = (if rt ctx = REFRAME_RT_SYNC \<and> clock ctx = None
                           then ctx\<lparr>clock := Some sid\<rparr> else ctx);
                   sid1 = (if rt ctx = REFRAME_RT_SYNC
                           then (case clock ctx1 of Some c \<Rightarrow> c | None \<Rightarrow> sid) else sid);
                   st = sts sid1
               in if sys_clock_at_init st = 0 then
                    Inr (True, ctx1,
                         sts(sid1 := st\<lparr>cts_us_at_init := cts_us, sys_clock_at_init := clk\<rparr>), sid1)
                  else if cts_us < cts_us_at_init st then Inr (True, ctx1, sts, sid1)
                  else
                    (let diff = speed_scale ctx (cts_us - cts_us_at_init st);
                         clk = clk - sys_clock_at_init st
                     in if clk + RT_PRECISION_US \<ge> diff then Inr (True, ctx1, sts, sid1)
                        else
                          (let diff = diff - clk
                           in Inr (False,
                                ctx1\<lparr>reschedule_in :=
                                  (if reschedule_in ctx1 = 0 then diff
                                   else if reschedule_in ctx1 > diff then diff
                                   else reschedule_in ctx1)\<rparr>,
                                sts, sid1))))))"

subsection \<open>The frame allow-list\<close>

text \<open>The search loop over \<open>ctx->frames\<close>: it stops at the first entry equal to \<open>n\<close>.\<close>

fun frame_listed :: "u32 list \<Rightarrow> u32 \<Rightarrow> bool" where
  "frame_listed [] n = False"
| "frame_listed (v # vs) n = (if v = n then True else frame_listed vs n)"

subsection \<open>Emission and timestamp rewrite\<close>

text \<open>
  Modelled from the spec: the bitstream reader and writer of the library are
  not part of the filter; the spec calls the first four bytes of a timecode
  sample its leading 32-bit counter. The counter is read and written with the
  most significant byte first.
\<close>

definition be32_read :: "u8 list \<Rightarrow> u32" where
  "be32_read bs =
     push_bit 24 (ucast (bs ! 0)) OR push_bit 16 (ucast (bs ! 1))
       OR push_bit 8 (ucast (bs ! 2)) OR ucast (bs ! 3)"

definition be32_write :: "u32 \<Rightarrow> u8 list" where
  "be32_write v = [ucast (drop_bit 24 v), ucast (drop_bit 16 v), ucast (drop_bit 8 v), ucast v]"

text \<open>
  A new output packet for \<open>pck\<close> with the given data.
  \<open>gf_filter_pck_merge_properties\<close> gives it the timing of \<open>pck\<close>, which stays
  unless the filter sets it afterwards.
\<close>

definition new_pck_from :: "GF_FilterPacket \<Rightarrow> u8 option list \<Rightarrow> out_packet" where
  "new_pck_from pck d =
     \<lparr>o_src = pck_ref pck, o_cts = pck_cts pck, o_dts = pck_dts pck, o_dur = pck_dur pck,
      o_data = d, o_filenum = None, o_filesuf = None\<rparr>"

text \<open>
  The four ways of making the new packet (lines 676-716): the rewritten
  timecode sample, the kept part of a raw-audio packet split at the end of a
  range, the remainder of a raw-audio packet, and a reference to the packet.
  The result is the new packet, \<open>cts_offset\<close>, \<open>dur\<close> and the stream.
\<close>

definition make_new_pck ::
  "gpac_env \<Rightarrow> GF_ReframerCtx \<Rightarrow> RTStream \<Rightarrow> GF_FilterPacket
    \<Rightarrow> fault + (out_packet \<times> u32 \<times> u32 \<times> RTStream)" where
  "make_new_pck K ctx st pck =
     (let data = pck_data pck;
          pck_size = (of_nat (length data) :: u32);
          keep = audio_samples_to_keep st
      in if tcmdrw ctx \<and> codec_id st = GF_CODECID_TMCD K \<and> split_start st \<noteq> 0
            \<and> nb_video_frames_since_start_at_range_start ctx \<noteq> 0 then
           (if length data < 4 then Inl OutOfBounds
            else Inr (new_pck_from pck
                        (map Some
                           (be32_write (be32_read data
                                          + nb_video_frames_since_start_at_range_start ctx)
                            @ drop 4 data)),
                      0, 0, st))
         else if split_pck st \<noteq> None \<and> map_option pck_ref (split_pck st) = Some (pck_ref pck)
                 \<and> keep \<noteq> 0 then
           (case reframer_copy_raw_audio st data pck_size 0
                   (replicate (unat (keep * abps st)) None) keep of
              Inl e \<Rightarrow> Inl e
            | Inr out \<Rightarrow> Inr (new_pck_from pck out, 0, keep, st))
         else if keep \<noteq> 0 then
           (case reframer_copy_raw_audio st data pck_size keep
                   (replicate (unat (pck_size - keep * abps st)) None)
                   (pck_size - keep * abps st) of
              Inl e \<Rightarrow> Inl e
            | Inr out \<Rightarrow>
                if abps st = 0 then Inl DivByZero
                else Inr (new_pck_from pck out, keep, pck_size div abps st - keep,
                          st\<lparr>ts_at_range_start_plus_one :=
                               (if cur_range_idx ctx = 1
                                then ts_at_range_start_plus_one st + ucast keep
                                else ts_at_range_start_plus_one st),
                             audio_samples_to_keep := 0\<rparr>))
         else Inr (new_pck_from pck (map Some data), 0, 0, st))"

text \<open>Lines 719-727: the offset and the duration of a split, from samples to the timescale.\<close>

definition rescale_split :: "RTStream \<Rightarrow> u32 \<Rightarrow> u32 \<Rightarrow> out_packet \<Rightarrow> fault + (u32 \<times> out_packet)" where
  "rescale_split st cts_offset dur new =
     (if cts_offset \<noteq> 0 \<or> dur \<noteq> 0 then
        (if timescale st \<noteq> sample_rate st then
           (if sample_rate st = 0 then Inl DivByZero
            else Inr ((cts_offset * timescale st) div sample_rate st,
                      new\<lparr>o_dur := (dur * timescale st) div sample_rate st\<rparr>))
         else Inr (cts_offset, new\<lparr>o_dur := dur\<rparr>))
      else Inr (cts_offset, new))"

text \<open>Lines 730-785: the first packet of a range carries the file number and suffix.\<close>

definition signal_chunk_start ::
  "gpac_env \<Rightarrow> GF_ReframerCtx \<Rightarrow> RTStream \<Rightarrow> out_packet \<Rightarrow> fault + (out_packet \<times> RTStream)" where
  "signal_chunk_start K ctx st new =
     (if first_pck_sent st then Inr (new, st)
      else
        (case file_suffix K (xs ctx) (xe ctx) (cur_range_idx ctx) (range_type ctx)
                (extract_mode ctx) (cur_start ctx) (cur_end ctx) of
           Inl e \<Rightarrow> Inl e
         | Inr suf \<Rightarrow>
             Inr (new\<lparr>o_filenum :=
                        Some (if extract_mode ctx = EXTRACT_RANGE then cur_range_idx ctx
                              else file_idx ctx),
                      o_filesuf := Some suf\<rparr>,
                  st\<lparr>first_pck_sent := True\<rparr>)))"

text \<open>
  Lines 787-813: the timestamps of the new packet. \<open>ts\<close> is an \<open>s64\<close>: the
  sums wrap, unknown is the bit pattern \<open>GF_FILTER_NO_TS\<close>, and only the test
  \<open>ts < 0\<close> reads it as signed.
\<close>

definition rewrite_timestamps ::
  "gpac_env \<Rightarrow> GF_ReframerCtx \<Rightarrow> RTStream \<Rightarrow> GF_FilterPacket \<Rightarrow> u32 \<Rightarrow> out_packet \<Rightarrow> out_packet" where
  "rewrite_timestamps K ctx st pck cts_offset new =
     (let ts = pck_cts pck + ucast cts_offset;
          new1 =
            (if ts \<noteq> GF_FILTER_NO_TS K then
               (let ts = ts + tk_delay st;
                    ts = ts + ts_at_range_end st;
                    ts = ts - (ts_at_range_start_plus_one st - 1);
                    ts = (if sint ts < 0 then 0 else ts);
                    n = new\<lparr>o_cts := ts\<rparr>
                in if raw ctx then n\<lparr>o_dts := ts\<rparr> else n)
             else new)
      in if \<not> raw ctx then
           (let ts = pck_dts pck + ucast cts_offset
            in if ts \<noteq> GF_FILTER_NO_TS K then
                 (let ts = ts + tk_delay st;
                      ts = ts - (ts_at_range_start_plus_one st - 1);
                      ts = ts + ts_at_range_end st
                  in new1\<lparr>o_dts := ts\<rparr>)
               else new1)
         else new1)"

text \<open>Lines 814-842: durations of a packet split or reinserted across a range boundary.\<close>

definition adjust_split_durations ::
  "RTStream \<Rightarrow> GF_FilterPacket \<Rightarrow> out_packet \<Rightarrow> out_packet \<times> RTStream" where
  "adjust_split_durations st pck new =
     (let (new1, st1, is_split1) =
            (if split_start st \<noteq> 0 then
               (let dur = pck_dur pck;
                    dur = (if dur > split_start st then dur - split_start st else dur)
                in (new\<lparr>o_dur := dur\<rparr>,
                    st\<lparr>ts_at_range_start_plus_one :=
                         ts_at_range_start_plus_one st + ucast (split_start st),
                       split_start := 0\<rparr>,
                    True))
             else (new, st, False));
          (new2, st2, is_split2) =
            (if split_end st1 \<noteq> 0 \<and> length (pck_queue st1) = 1 then
               (new1\<lparr>o_dur := split_end st1\<rparr>, st1\<lparr>split_end := 0\<rparr>, True)
             else (new1, st1, is_split1))
      in if \<not> can_split st2 \<and> \<not> is_split2 \<and> reinsert_single_pck st2 \<noteq> None
            \<and> range_end_reached_ts st2 \<noteq> 0 then
           (let ndur = range_end_reached_ts st2 - (ts_at_range_start_plus_one st2 - 1)
            in ((if ndur \<noteq> 0 \<and> ndur < ucast (pck_dur pck)
                 then new2\<lparr>o_dur := ucast ndur\<rparr> else new2),
                st2\<lparr>split_start := ucast ndur\<rparr>))
         else (new2, st2))"

text \<open>
  The emission proper (lines 667-848): a rewritten packet while a range is
  active, the packet itself otherwise.
\<close>

definition emit_packet ::
  "gpac_env \<Rightarrow> GF_ReframerCtx \<Rightarrow> RTStream \<Rightarrow> GF_FilterPacket \<Rightarrow> fault + RTStream" where
  "emit_packet K ctx st pck =
     (if ts_at_range_start_plus_one st \<noteq> 0 then
        (case make_new_pck K ctx st pck of
           Inl e \<Rightarrow> Inl e
         | Inr (new, cts_offset, dur, st1) \<Rightarrow>
             (case rescale_split st1 cts_offset dur new of
                Inl e \<Rightarrow> Inl e
              | Inr (cts_offset, new1) \<Rightarrow>
                  (case signal_chunk_start K ctx st1 new1 of
                     Inl e \<Rightarrow> Inl e
                   | Inr (new2, st2) \<Rightarrow>
                       (let new3 = rewrite_timestamps K ctx st2 pck cts_offset new2;
                            (new4, st3) = adjust_split_durations st2 pck new3
                        in Inr (st3\<lparr>opid_sent := opid_sent st3 @ [new4]\<rparr>)))))
      else Inr (st\<lparr>opid_sent := opid_sent st @ [new_pck_from pck (map Some (pck_data pck))]\<rparr>))"

definition reframer_drop_packet :: "RTStream \<Rightarrow> bool \<Rightarrow> RTStream" where
  "reframer_drop_packet st pck_is_ref =
     (if pck_is_ref then st\<lparr>pck_queue := tl (pck_queue st)\<rparr>
      else st\<lparr>ipid_pending := tl (ipid_pending st)\<rparr>)"

text \<open>
  \<open>reframer_send_packet\<close>. \<open>sid\<close> is the stream the packet belongs to; after
  the real-time block every access through \<open>st\<close> goes to the stream that
  block left in \<open>st\<close>. The result is the returned flag, the context and the
  streams.
\<close>

definition reframer_send_packet ::
  "gpac_env \<Rightarrow> GF_ReframerCtx \<Rightarrow> (nat \<Rightarrow> RTStream) \<Rightarrow> nat \<Rightarrow> GF_FilterPacket \<Rightarrow> bool
    \<Rightarrow> fault + (bool \<times> GF_ReframerCtx \<times> (nat \<Rightarrow> RTStream))" where
  "reframer_send_packet K ctx sts sid pck pck_is_ref =
     (case rt_regulate K ctx sts sid pck of
        Inl e \<Rightarrow> Inl e
      | Inr (do_send, ctx1, sts1, sid1) \<Rightarrow>
          (let st = sts1 sid1
           in if range_type ctx1 = RANGE_NONE \<and> frames ctx1 \<noteq> []
                 \<and> \<not> frame_listed (frames ctx1) (nb_frames st + 1) then
                Inr (True, ctx1,
                     sts1(sid1 := st\<lparr>ipid_pending := tl (ipid_pending st),
                                      nb_frames := nb_frames st + 1\<rparr>))
              else if \<not> do_send then Inr (False, ctx1, sts1)
              else
                (case emit_packet K ctx1 st pck of
                   Inl e \<Rightarrow> Inl e
                 | Inr st1 \<Rightarrow>
                     (let st2 = reframer_drop_packet st1 pck_is_ref;
                          st3 = st2\<lparr>nb_frames := nb_frames st2 + 1\<rparr>;
                          ctx2 = (if stream_type st3 = GF_STREAM_VISUAL K
                                     \<and> nb_frames st3 > nb_video_frames_since_start ctx1
                                  then ctx1\<lparr>nb_video_frames_since_start := nb_frames st3\<rparr>
                                  else ctx1)
                      in Inr (True, ctx2, sts1(sid1 := st3))))))"

subsection \<open>The end of a range\<close>

text \<open>
  The loop of \<open>reframer_process\<close> that closes the range on every stream
  (lines 1816-1848). For one stream the result is the stream and what it adds
  to \<open>nb_end_of_range\<close> and \<open>nb_eos\<close>.
\<close>

definition end_range_stream :: "GF_ReframerCtx \<Rightarrow> RTStream \<Rightarrow> RTStream \<times> u32 \<times> u32" where
  "end_range_stream ctx st =
     (let st1 =
            (if reinsert_single_pck st \<noteq> None \<and> den (cur_start ctx) \<noteq> 0 then
               (let start = (num (cur_start ctx) * ucast (timescale st)) div den (cur_start ctx)
                in if num (cur_end ctx) \<noteq> 0 \<and> den (cur_end ctx) \<noteq> 0 then
                     st\<lparr>ts_at_range_end :=
                          (num (cur_end ctx) * ucast (timescale st)) div den (cur_end ctx) - start\<rparr>
                   else st)
             else
               st\<lparr>ts_at_range_end :=
                    ts_at_range_end st
                      + ((range_end_reached_ts st - 1) - (ts_at_range_start_plus_one st - 1))\<rparr>);
          st2 = st1\<lparr>ts_at_range_start_plus_one := 0, range_end_reached_ts := 0,
                    range_start_computed := 0\<rparr>
      in if in_eos st2 then
           (if pck_queue st2 \<noteq> [] then (st2, 1, 0) else (st2\<lparr>opid_eos := True\<rparr>, 0, 1))
         else if split_pck st2 \<noteq> None then (st2, 1, 0)
         else (st2, 0, 0))"

fun end_range_streams ::
  "GF_ReframerCtx \<Rightarrow> RTStream list \<Rightarrow> RTStream list \<times> u32 \<times> u32" where
  "end_range_streams ctx [] = ([], 0, 0)"
| "end_range_streams ctx (st # sts) =
     (case end_range_stream ctx st of
        (st', e, z) \<Rightarrow>
          (case end_range_streams ctx sts of
             (sts', es, zs) \<Rightarrow> (st' # sts', e + es, z + zs)))"

subsection \<open>The alignment engine\<close>

text \<open>The timestamp the engine reads from a queued packet: DTS, or CTS, plus the delay.\<close>

definition pck_ts :: "gpac_env \<Rightarrow> RTStream \<Rightarrow> GF_FilterPacket \<Rightarrow> u64" where
  "pck_ts K st pck =
     (let ts = pck_dts pck;
          ts = (if ts = GF_FILTER_NO_TS K then pck_cts pck else ts)
      in ts + tk_delay st)"

text \<open>
  The inner loop of the first pass (lines 974-992): the timestamp of the
  sync packet number \<open>gop_depth + 2\<close> of the queue, or 0 when the queue has
  fewer. \<open>nb_sap\<close> counts the sync packets seen so far.
\<close>

fun find_last_sap ::
  "gpac_env \<Rightarrow> GF_ReframerCtx \<Rightarrow> RTStream \<Rightarrow> GF_FilterPacket list \<Rightarrow> u32 \<Rightarrow> u64" where
  "find_last_sap K ctx st [] nb_sap = 0"
| "find_last_sap K ctx st (pck # q) nb_sap =
     (if \<not> raw ctx \<and> pck_sap pck = 0 then find_last_sap K ctx st q nb_sap
      else if nb_sap + 1 \<le> 1 + gop_depth ctx then find_last_sap K ctx st q (nb_sap + 1)
      else pck_ts K st pck)"

definition sap_candidate :: "gpac_env \<Rightarrow> GF_ReframerCtx \<Rightarrow> RTStream \<Rightarrow> u64" where
  "sap_candidate K ctx st = find_last_sap K ctx st (pck_queue st) 0"

text \<open>The local variables of the first pass.\<close>

record gop_scan =
  min_ts :: u64
  min_timescale :: u32
  min_ts_a :: u64
  min_timescale_a :: u32
  nb_eos :: u32
  has_empty_streams :: bool
  wait_for_sap :: bool
  flush_all :: bool

definition gop_scan_init :: gop_scan where
  "gop_scan_init =
     \<lparr>min_ts = 0, min_timescale = 0, min_ts_a = 0, min_timescale_a = 0, nb_eos = 0,
      has_empty_streams = False, wait_for_sap = False, flush_all = False\<rparr>"

text \<open>One turn of the first pass (lines 960-1013).\<close>

definition scan_stream :: "gpac_env \<Rightarrow> GF_ReframerCtx \<Rightarrow> gop_scan \<Rightarrow> RTStream \<Rightarrow> gop_scan" where
  "scan_stream K ctx sc st =
     (let sc1 = (if in_eos st then sc\<lparr>nb_eos := nb_eos sc + 1\<rparr> else sc)
      in if in_eos st \<and> pck_queue st = [] then sc1\<lparr>has_empty_streams := True\<rparr>
         else
           (let last_sap_ts = sap_candidate K ctx st;
                sc2 =
                  (if last_sap_ts = 0 then
                     (if in_eos st \<and> \<not> flush_all sc1 \<and> reinsert_single_pck st = None
                      then sc1\<lparr>flush_all := True\<rparr>
                      else if \<not> all_saps st then sc1\<lparr>wait_for_sap := True\<rparr>
                      else sc1)
                   else sc1)
            in if all_saps st then
                 (if min_ts_a sc2 = 0
                     \<or> last_sap_ts * ucast (min_timescale_a sc2) < min_ts_a sc2 * ucast (timescale st)
                  then sc2\<lparr>min_ts_a := last_sap_ts, min_timescale_a := timescale st\<rparr>
                  else sc2)
               else
                 (if min_ts sc2 = 0
                     \<or> last_sap_ts * ucast (min_timescale sc2) < min_ts sc2 * ucast (timescale st)
                  then sc2\<lparr>min_ts := last_sap_ts, min_timescale := timescale st\<rparr>
                  else sc2)))"

text \<open>
  The flush pass (lines 1021-1043): the latest packet end over all streams.
  \<open>None\<close> is the \<open>return\<close> taken when a stream is not at its end.
\<close>

fun flush_scan :: "gpac_env \<Rightarrow> RTStream list \<Rightarrow> u64 \<times> u32 \<Rightarrow> (u64 \<times> u32) option" where
  "flush_scan K [] m = Some m"
| "flush_scan K (st # sts) (mts, msc) =
     (if \<not> in_eos st then None
      else if pck_queue st = [] then flush_scan K sts (mts, msc)
      else
        (let pck = last (pck_queue st);
             dur = (if pck_dur pck = 0 then 1 else pck_dur pck);
             ts = pck_ts K st pck + ucast dur
         in if mts = 0 \<or> ts * ucast msc > mts * ucast (timescale st)
            then flush_scan K sts (ts, timescale st)
            else flush_scan K sts (mts, msc)))"

text \<open>
  The first block of \<open>check_gop_split\<close> (lines 952-1060), run when no cut
  candidate is set. \<open>None\<close> is an early \<open>return\<close>; otherwise the result is the
  context and \<open>flush_all\<close>.
\<close>

definition compute_min_ts ::
  "gpac_env \<Rightarrow> GF_ReframerCtx \<Rightarrow> RTStream list \<Rightarrow> (GF_ReframerCtx \<times> bool) option" where
  "compute_min_ts K ctx sts =
     (let sc = foldl (scan_stream K ctx) gop_scan_init sts;
          flush = (flush_all sc \<or> (nb_eos sc \<noteq> 0 \<and> has_empty_streams sc))
      in case (if flush then flush_scan K sts (min_ts sc, min_timescale sc)
               else Some (min_ts sc, min_timescale sc)) of
           None \<Rightarrow> None
         | Some (mts, msc) \<Rightarrow>
             if mts = 0 \<and> wait_for_sap sc then None
             else
               (let (mts, msc) =
                      (if mts = 0 then (min_ts_a sc, min_timescale_a sc) else (mts, msc))
                in if mts = 0 then
                     (if nb_eos sc < of_nat (length sts) then None else Some (ctx, flush))
                   else Some (ctx\<lparr>min_ts_scale := msc, min_ts_computed := mts\<rparr>, flush)))"

text \<open>
  Lines 1062-1080: has every stream queued a packet at or after the cut
  candidate? The code asserts that the queue is not empty and then reads its
  last packet.
\<close>

fun all_reached_min_ts :: "gpac_env \<Rightarrow> GF_ReframerCtx \<Rightarrow> RTStream list \<Rightarrow> fault + bool" where
  "all_reached_min_ts K ctx [] = Inr True"
| "all_reached_min_ts K ctx (st # sts) =
     (if range_start_computed st = 2 then all_reached_min_ts K ctx sts
      else if reinsert_single_pck st \<noteq> None then all_reached_min_ts K ctx sts
      else if pck_queue st = [] then Inl NullPacket
      else if pck_ts K st (last (pck_queue st)) * ucast (min_ts_scale ctx)
                < min_ts_computed ctx * ucast (timescale st)
      then Inr False
      else all_reached_min_ts K ctx sts)"

text \<open>
  Lines 1096-1113: the bytes queued on a stream before the cut candidate,
  added to \<open>acc\<close>, and whether a packet at or after the candidate was found.
\<close>

fun size_before_min_ts ::
  "gpac_env \<Rightarrow> GF_ReframerCtx \<Rightarrow> RTStream \<Rightarrow> GF_FilterPacket list \<Rightarrow> u64 \<Rightarrow> bool \<times> u64" where
  "size_before_min_ts K ctx st [] acc = (False, acc)"
| "size_before_min_ts K ctx st (pck # q) acc =
     (if pck_ts K st pck * ucast (min_ts_scale ctx) \<ge> min_ts_computed ctx * ucast (timescale st)
      then (True, acc)
      else size_before_min_ts K ctx st q (acc + ucast (of_nat (length (pck_data pck)) :: u32)))"

record size_scan =
  nb_stop_at_min_ts :: u32
  cumulated_size :: u64
  nb_eos_sz :: u32

definition size_stream :: "gpac_env \<Rightarrow> GF_ReframerCtx \<Rightarrow> size_scan \<Rightarrow> RTStream \<Rightarrow> size_scan" where
  "size_stream K ctx sz st =
     (case size_before_min_ts K ctx st (pck_queue st) (cumulated_size sz) of
        (found, acc) \<Rightarrow>
          sz\<lparr>nb_stop_at_min_ts := (if found then nb_stop_at_min_ts sz + 1 else nb_stop_at_min_ts sz),
             cumulated_size := acc,
             nb_eos_sz := (if in_eos st \<and> \<not> found then nb_eos_sz sz + 1 else nb_eos_sz sz)\<rparr>)"

definition size_scan_streams :: "gpac_env \<Rightarrow> GF_ReframerCtx \<Rightarrow> RTStream list \<Rightarrow> size_scan" where
  "size_scan_streams K ctx sts =
     foldl (size_stream K ctx) \<lparr>nb_stop_at_min_ts = 0, cumulated_size = 0, nb_eos_sz = 0\<rparr> sts"

text \<open>
  Modelled from the spec: the macro \<open>ABS\<close> comes from a header outside the
  filter; the spec reads it as the absolute difference. On an \<open>s64\<close> it is
  the value itself when positive and its negation otherwise.
\<close>

definition ABS :: "u64 \<Rightarrow> u64" where
  "ABS a = (if 0 < sint a then a else - a)"

text \<open>
  Lines 1136-1163: once the estimation stops, the choice between the
  previous candidate and the current one, whose cumulated size is
  \<open>cumulated\<close>.
\<close>

definition use_prev_estimate :: "GF_ReframerCtx \<Rightarrow> u64 \<Rightarrow> bool" where
  "use_prev_estimate ctx cumulated =
     (let use_prev =
            (if xround ctx = REFRAME_ROUND_BEFORE then True
             else if xround ctx = REFRAME_ROUND_AFTER then False
             else
               (let diff_prev = split_size ctx - est_file_size ctx;
                    diff_cur = split_size ctx - cumulated
                in if sint (ABS diff_cur) < sint (ABS diff_prev) then False else True))
      in if prev_min_ts_scale ctx = 0 then False else use_prev)"

definition choose_split_size :: "GF_ReframerCtx \<Rightarrow> u64 \<Rightarrow> GF_ReframerCtx" where
  "choose_split_size ctx cumulated =
     (let ctx1 =
            (if use_prev_estimate ctx cumulated then
               ctx\<lparr>min_ts_computed := prev_min_ts_computed ctx,
                   min_ts_scale := prev_min_ts_scale ctx\<rparr>
             else ctx\<lparr>est_file_size := cumulated\<rparr>)
      in ctx1\<lparr>prev_min_ts_computed := 0, prev_min_ts_scale := 0\<rparr>)"

text \<open>
  Lines 1083-1164, the size split: \<open>None\<close> is the \<open>return\<close> that asks for one
  more group of pictures, with the context it leaves.
\<close>

definition size_split_step ::
  "gpac_env \<Rightarrow> GF_ReframerCtx \<Rightarrow> RTStream list \<Rightarrow> GF_ReframerCtx + GF_ReframerCtx" where
  "size_split_step K ctx sts =
     (let sz = size_scan_streams K ctx sts
      in if cumulated_size sz < split_size ctx \<and> min_ts_scale ctx \<noteq> 0
            \<and> (prev_min_ts_computed ctx = 0 \<or> prev_min_ts_computed ctx < min_ts_computed ctx)
         then
           Inl (if nb_stop_at_min_ts sz + nb_eos_sz sz = of_nat (length sts) then
                  ctx\<lparr>est_file_size := cumulated_size sz,
                      prev_min_ts_computed := min_ts_computed ctx,
                      prev_min_ts_scale := min_ts_scale ctx,
                      min_ts_computed := 0, min_ts_scale := 0,
                      gop_depth := gop_depth ctx + 1\<rparr>
                else ctx)
         else Inr (choose_split_size ctx (cumulated_size sz)))"

text \<open>
  Lines 1169-1190: the range of one stream once the cut is accepted. The
  assertion on a stream with an empty queue is not modelled (it has no effect
  in a release build).
\<close>

definition start_range_stream :: "gpac_env \<Rightarrow> GF_ReframerCtx \<Rightarrow> RTStream \<Rightarrow> RTStream" where
  "start_range_stream K ctx st =
     (let r = min_ts_computed ctx * ucast (timescale st);
          r = (if min_ts_scale ctx \<noteq> 0 then r div ucast (min_ts_scale ctx) else r);
          st1 = st\<lparr>range_end_reached_ts := r + 1, first_pck_sent := False\<rparr>
      in case pck_queue st of
           pck # _ \<Rightarrow> st1\<lparr>ts_at_range_start_plus_one := pck_ts K st pck + 1\<rparr>
         | [] \<Rightarrow> st1\<lparr>range_end_reached_ts := 0\<rparr>)"

text \<open>
  \<open>check_gop_split\<close>. The flag of the result tells whether the cut was
  accepted (the function reached \<open>good to go\<close>) or the function returned
  early, waiting for more input.
\<close>

definition check_gop_split ::
  "gpac_env \<Rightarrow> GF_ReframerCtx \<Rightarrow> RTStream list
    \<Rightarrow> fault + (bool \<times> GF_ReframerCtx \<times> RTStream list)" where
  "check_gop_split K ctx sts =
     (case (if min_ts_scale ctx = 0 then compute_min_ts K ctx sts else Some (ctx, False)) of
        None \<Rightarrow> Inr (False, ctx, sts)
      | Some (ctx1, flush) \<Rightarrow>
          (case (if \<not> flush then all_reached_min_ts K ctx1 sts else Inr True) of
             Inl e \<Rightarrow> Inl e
           | Inr False \<Rightarrow> Inr (False, ctx1, sts)
           | Inr True \<Rightarrow>
               (case (if extract_mode ctx1 = EXTRACT_SIZE then size_split_step K ctx1 sts
                      else Inr ctx1) of
                  Inl ctx2 \<Rightarrow> Inr (False, ctx2, sts)
                | Inr ctx2 \<Rightarrow>
                    Inr (True,
                         ctx2\<lparr>in_range := True, gop_depth := 0,
                              cur_end := \<lparr>num = min_ts_computed ctx2,
                                          den = ucast (min_ts_scale ctx2)\<rparr>\<rparr>,
                         map (start_range_stream K ctx2) sts))))"

subsection \<open>The sending loop\<close>

text \<open>
  Lines 1767-1797: the options \<open>refs\<close> and \<open>saps\<close> hold back the packets
  that are not used as reference and the packets whose sync type is not
  listed; nothing is forwarded once the ranges are done.
\<close>

definition forward_pck :: "gpac_env \<Rightarrow> GF_ReframerCtx \<Rightarrow> GF_FilterPacket \<Rightarrow> bool" where
  "forward_pck K ctx pck =
     (\<not> (refs ctx \<and> (drop_bit 2 (pck_deps pck) AND 3) = 2)
      \<and> (saps ctx = []
          \<or> (if pck_sap pck = GF_FILTER_SAP_1 K then filter_sap1 ctx
              else if pck_sap pck = GF_FILTER_SAP_2 K then filter_sap2 ctx
              else if pck_sap pck = GF_FILTER_SAP_3 K then filter_sap3 ctx
              else if pck_sap pck = GF_FILTER_SAP_4 K \<or> pck_sap pck = GF_FILTER_SAP_4_PROL K
              then filter_sap4 ctx
              else filter_sap_none ctx))
      \<and> range_type ctx \<noteq> RANGE_DONE)"

text \<open>
  The loop of \<open>reframer_process\<close> that sends the packets of one stream
  (lines 1720-1808): the packets of the queue while a range is configured,
  up to the end mark of the stream in the sync-point and size splits; the
  packets of the input otherwise. The first argument bounds the number of
  turns, and \<open>None\<close> is a loop that has not ended within the bound: in the
  mode \<open>REFRAME_RT_SYNC\<close> the packet of a stream other than the clock stream
  is never removed. The result is the context, the streams and what the
  stream adds to \<open>nb_eos\<close> and to \<open>nb_end_of_range\<close>.
\<close>

fun send_loop ::
  "nat \<Rightarrow> gpac_env \<Rightarrow> GF_ReframerCtx \<Rightarrow> (nat \<Rightarrow> RTStream) \<Rightarrow> nat
    \<Rightarrow> (fault + (GF_ReframerCtx \<times> (nat \<Rightarrow> RTStream) \<times> u32 \<times> u32)) option" where
  "send_loop 0 K ctx sts sid = None"
| "send_loop (Suc n) K ctx sts sid =
     (let st = sts sid;
          ranged = (range_type ctx \<noteq> RANGE_NONE \<and> range_type ctx \<noteq> RANGE_DONE)
      in case (if ranged then pck_queue st else ipid_pending st) of
           [] \<Rightarrow>
             Some (Inr (if range_end_reached_ts st \<noteq> 0 then (ctx, sts, 0, 1)
                        else if \<not> is_playing st then (ctx, sts, 1, 0)
                        else if ipid_eos st then (ctx, sts(sid := st\<lparr>opid_eos := True\<rparr>), 1, 0)
                        else (ctx, sts, 0, 0)))
         | pck # _ \<Rightarrow>
             if ranged \<and> \<not> is_range_extraction ctx \<and> range_end_reached_ts st \<noteq> 0
                \<and> pck_ts K st pck \<ge> range_end_reached_ts st - 1
             then Some (Inr (ctx, sts, 0, 1))
             else if \<not> forward_pck K ctx pck then
               send_loop n K ctx
                 (sts(sid := (reframer_drop_packet st ranged)\<lparr>nb_frames := nb_frames st + 1\<rparr>)) sid
             else
               (case reframer_send_packet K ctx sts sid pck ranged of
                  Inl e \<Rightarrow> Some (Inl e)
                | Inr (sent, ctx1, sts1) \<Rightarrow>
                    if sent then send_loop n K ctx1 sts1 sid
                    else Some (Inr (ctx1, sts1, 0, 0))))"

text \<open>
  \<open>reframer_load_range\<close> (lines 381-403). In the duration, sync-point and
  size splits the next range starts where the last one ended. The branch
  that reads the next boundaries from the lists \<open>xs\<close> and \<open>xe\<close> (lines
  404-553) calls the parser and the event and property interfaces of the
  library: it is the parameter \<open>load_listed\<close>.
\<close>

definition reframer_load_range ::
  "(GF_ReframerCtx \<Rightarrow> (nat \<Rightarrow> RTStream) \<Rightarrow> fault + (GF_ReframerCtx \<times> (nat \<Rightarrow> RTStream)))
    \<Rightarrow> GF_ReframerCtx \<Rightarrow> (nat \<Rightarrow> RTStream) \<Rightarrow> fault + (GF_ReframerCtx \<times> (nat \<Rightarrow> RTStream))" where
  "reframer_load_range load_listed ctx sts =
     (let ctx1 = ctx\<lparr>nb_video_frames_since_start_at_range_start :=
                       nb_video_frames_since_start ctx\<rparr>
      in if extract_mode ctx1 = EXTRACT_DUR then
           (if den (extract_dur ctx1) = 0 then Inl DivByZero
            else
              Inr (ctx1\<lparr>cur_start :=
                          (cur_start ctx1)\<lparr>num := num (cur_start ctx1)
                             + (num (extract_dur ctx1) * den (cur_start ctx1))
                                 div den (extract_dur ctx1)\<rparr>,
                        cur_end :=
                          (cur_end ctx1)\<lparr>num := num (cur_end ctx1)
                             + (num (extract_dur ctx1) * den (cur_end ctx1))
                                 div den (extract_dur ctx1)\<rparr>,
                        file_idx := file_idx ctx1 + 1\<rparr>, sts))
         else if extract_mode ctx1 = EXTRACT_SAP \<or> extract_mode ctx1 = EXTRACT_SIZE then
           Inr (ctx1\<lparr>cur_start := cur_end ctx1, min_ts_computed := 0, min_ts_scale := 0,
                     file_idx := file_idx ctx1 + 1\<rparr>, sts)
         else load_listed ctx1 sts)"

subsection \<open>What a call of \<open>reframer_send_packet\<close> did with the packet\<close>

text \<open>
  The packet was dropped from the input without being sent: the call
  returned true, the output of the stream is unchanged and its frame count
  grew by one. The packet was forwarded: the call returned true and the
  output of the stream grew by the packet, unchanged.
\<close>

definition dropped_unsent ::
  "(nat \<Rightarrow> RTStream) \<Rightarrow> nat \<Rightarrow> fault + (bool \<times> GF_ReframerCtx \<times> (nat \<Rightarrow> RTStream)) \<Rightarrow> bool" where
  "dropped_unsent sts sid res =
     (case res of
        Inl e \<Rightarrow> False
      | Inr (b, c, s) \<Rightarrow>
          b \<and> opid_sent (s sid) = opid_sent (sts sid)
            \<and> ipid_pending (s sid) = tl (ipid_pending (sts sid))
            \<and> nb_frames (s sid) = nb_frames (sts sid) + 1)"

definition forwarded ::
  "(nat \<Rightarrow> RTStream) \<Rightarrow> nat \<Rightarrow> GF_FilterPacket
    \<Rightarrow> fault + (bool \<times> GF_ReframerCtx \<times> (nat \<Rightarrow> RTStream)) \<Rightarrow> bool" where
  "forwarded sts sid pck res =
     (case res of
        Inl e \<Rightarrow> False
      | Inr (b, c, s) \<Rightarrow>
          b \<and> opid_sent (s sid)
                = opid_sent (sts sid) @ [new_pck_from pck (map Some (pck_data pck))]
            \<and> nb_frames (s sid) = nb_frames (sts sid) + 1)"

subsection \<open>The rewritten timestamp, as an integer\<close>

text \<open>
  The value the rewrite aims at, computed in the integers: the original
  timestamp plus the offset inside a split packet, plus the delay of the
  stream, minus the timestamp at the start of the range, plus the output time
  accumulated over the ranges before.
\<close>

definition rewritten_ts :: "RTStream \<Rightarrow> u64 \<Rightarrow> u32 \<Rightarrow> int" where
  "rewritten_ts st ts cts_offset =
     uint ts + uint cts_offset + uint (tk_delay st)
       - (uint (ts_at_range_start_plus_one st) - 1) + uint (ts_at_range_end st)"

definition fits_s64 :: "int \<Rightarrow> bool" where
  "fits_s64 x = (- (2 ^ 63) \<le> x \<and> x < 2 ^ 63)"

subsection \<open>The pool of streams that decides the cut\<close>

text \<open>
  The streams with sparse sync points when there is one, the streams whose
  packets are all sync points otherwise.
\<close>

definition cut_pool :: "RTStream list \<Rightarrow> RTStream list" where
  "cut_pool sts =
     (if filter (\<lambda>st. \<not> all_saps st) sts \<noteq> [] then filter (\<lambda>st. \<not> all_saps st) sts
      else filter all_saps sts)"

text \<open>
  What the scan holds for one pool after the streams \<open>pool\<close>: nothing, or the
  candidate and timescale of one of them, not after any other candidate.
\<close>

definition pool_min :: "gpac_env \<Rightarrow> GF_ReframerCtx \<Rightarrow> RTStream list \<Rightarrow> u64 \<Rightarrow> u32 \<Rightarrow> bool" where
  "pool_min K ctx pool m s =
     (if pool = [] then m = 0
      else (\<exists>x \<in> set pool. m = sap_candidate K ctx x \<and> s = timescale x
              \<and> (\<forall>st \<in> set pool. uint m * uint (timescale st)
                     \<le> uint (sap_candidate K ctx st) * uint s)))"

subsection \<open>The quantities of the real-time test\<close>

text \<open>
  The media time of a packet in microseconds, and the stream whose clock
  anchors are used: the stream itself, or the shared clock stream in the
  mode \<open>REFRAME_RT_SYNC\<close> (the stream itself when no clock stream is set yet).
\<close>

definition media_time_us :: "gpac_env \<Rightarrow> RTStream \<Rightarrow> GF_FilterPacket \<Rightarrow> u64" where
  "media_time_us K st pck =
     (((if pck_dts pck = GF_FILTER_NO_TS K then pck_cts pck else pck_dts pck) + tk_delay st)
        * 1000000) div ucast (timescale st)"

definition clock_stream :: "GF_ReframerCtx \<Rightarrow> nat \<Rightarrow> nat" where
  "clock_stream ctx sid =
     (if rt ctx = REFRAME_RT_SYNC then (case clock ctx of Some c \<Rightarrow> c | None \<Rightarrow> sid)
      else sid)"

text \<open>
  The media time of the packet since the anchor of its clock, and the
  wall-clock time since the anchor, both in microseconds.
\<close>

definition rt_media_diff ::
  "gpac_env \<Rightarrow> GF_ReframerCtx \<Rightarrow> (nat \<Rightarrow> RTStream) \<Rightarrow> nat \<Rightarrow> GF_FilterPacket \<Rightarrow> u64" where
  "rt_media_diff K ctx sts sid pck =
     media_time_us K (sts sid) pck - cts_us_at_init (sts (clock_stream ctx sid))"

definition rt_elapsed :: "GF_ReframerCtx \<Rightarrow> (nat \<Rightarrow> RTStream) \<Rightarrow> nat \<Rightarrow> u64" where
  "rt_elapsed ctx sts sid = clock_val ctx - sys_clock_at_init (sts (clock_stream ctx sid))"

subsection \<open>The setting of the continuity law\<close>

text \<open>
  The accepted cut in the timescale of a stream (lines 1172-1174): the end
  mark \<open>start_range_stream\<close> gives the stream is this value plus one.
\<close>

definition stream_cut :: "GF_ReframerCtx \<Rightarrow> RTStream \<Rightarrow> u64" where
  "stream_cut ctx st =
     (if min_ts_scale ctx \<noteq> 0
      then (min_ts_computed ctx * ucast (timescale st)) div ucast (min_ts_scale ctx)
      else min_ts_computed ctx * ucast (timescale st))"

text \<open>
  A sync-point or size split without real-time regulation, packet filter
  or raw mode, in which the boundary suffix is built without fault; and a
  stream that holds no fragment of a raw-audio packet, no split packet and no
  packet to reinsert, and whose queued packets have known timestamps.
\<close>

definition plain_split :: "gpac_env \<Rightarrow> GF_ReframerCtx \<Rightarrow> bool" where
  "plain_split K ctx \<longleftrightarrow>
     rt ctx = REFRAME_RT_OFF
     \<and> (range_type ctx = RANGE_CLOSED \<or> range_type ctx = RANGE_OPEN)
     \<and> \<not> is_range_extraction ctx \<and> \<not> refs ctx \<and> saps ctx = [] \<and> \<not> raw ctx
     \<and> (case file_suffix K (xs ctx) (xe ctx) (cur_range_idx ctx) (range_type ctx)
               (extract_mode ctx) (cur_start ctx) (cur_end ctx) of
           Inl e \<Rightarrow> False | Inr suf \<Rightarrow> True)"

definition plain_stream :: "gpac_env \<Rightarrow> RTStream \<Rightarrow> bool" where
  "plain_stream K st \<longleftrightarrow>
     audio_samples_to_keep st = 0 \<and> split_start st = 0 \<and> split_end st = 0
     \<and> reinsert_single_pck st = None
     \<and> (\<forall>p \<in> set (pck_queue st).
           pck_dts p \<noteq> GF_FILTER_NO_TS K \<and> pck_cts p \<noteq> GF_FILTER_NO_TS K)"


subsection \<open>Concrete streams and contexts\<close>

text \<open>
  A context with one closed time range from 10 s to 20 s and a stream in
  milliseconds with no raw-audio frame size; the concrete inputs below are
  variations of the two.
\<close>

definition ctx0 :: GF_ReframerCtx where
  "ctx0 = \<lparr>frames = [], saps = [], refs = False, speed = Finite 1,
     xs = [''10''], xe = [''20''], rt = REFRAME_RT_OFF, raw = False, tcmdrw = True,
     xround = REFRAME_ROUND_BEFORE, clock = None, reschedule_in = 0, clock_val = 0,
     range_type = RANGE_CLOSED, cur_range_idx = 1,
     cur_start = \<lparr>num = 10, den = 1\<rparr>, cur_end = \<lparr>num = 20, den = 1\<rparr>,
     start_frame_idx_plus_one = 0, end_frame_idx_plus_one = 0, in_range = False,
     is_range_extraction = True, filter_sap1 = False, filter_sap2 = False, filter_sap3 = False,
     filter_sap4 = False, filter_sap_none = False,
     extract_dur = \<lparr>num = 0, den = 0\<rparr>, extract_mode = EXTRACT_RANGE, file_idx = 0,
     min_ts_computed = 0, min_ts_scale = 0, split_size = 0, est_file_size = 0,
     prev_min_ts_computed = 0, prev_min_ts_scale = 0, gop_depth = 0,
     nb_video_frames_since_start_at_range_start = 0, nb_video_frames_since_start = 0\<rparr>"

definition st0 :: RTStream where
  "st0 = \<lparr>timescale = 1000, cts_us_at_init = 0, sys_clock_at_init = 0, nb_frames = 0,
     can_split = False, all_saps = True, ts_at_range_start_plus_one = 0, ts_at_range_end = 0,
     pck_queue = [], range_start_computed = 0, range_end_reached_ts = 0, first_pck_sent = False,
     tk_delay = 0, in_eos = False, split_start = 0, split_end = 0, split_pck = None,
     reinsert_single_pck = None, codec_id = 0, stream_type = 0, nb_ch = 0, sample_rate = 0,
     abps = 0, audio_planar = False, audio_samples_to_keep = 0, is_playing = True,
     ipid_pending = [], ipid_eos = False, opid_sent = [], opid_eos = False\<rparr>"

text \<open>An environment with the all-ones value for an unknown timestamp.\<close>

definition K0 :: gpac_env where
  "K0 = \<lparr>GF_FILTER_NO_TS = - 1, GF_CODECID_TMCD = 0x746D6364, GF_STREAM_VISUAL = 4,
     GF_FILTER_SAP_1 = 1, GF_FILTER_SAP_2 = 2, GF_FILTER_SAP_3 = 3, GF_FILTER_SAP_4 = 4,
     GF_FILTER_SAP_4_PROL = 5, file_suffix = (\<lambda>s e i r m a b. Inr [])\<rparr>"

definition pck0 :: GF_FilterPacket where
  "pck0 = \<lparr>pck_ref = 1, pck_dts = 0, pck_cts = 0, pck_dur = 40, pck_sap = 1, pck_deps = 0,
     pck_data = [1, 2, 3, 4]\<rparr>"

text \<open>No range configured, and an allow-list of the frames 3 and 1.\<close>

definition ctxF :: GF_ReframerCtx where
  "ctxF = ctx0\<lparr>range_type := RANGE_NONE, frames := [3, 1]\<rparr>"

text \<open>
  A packet with presentation timestamp 100 and decoding timestamp 90; a
  stream whose range started at 50, after 1000 units of output (\<open>stR\<close>) or
  none (\<open>stC0\<close>); a stream whose range started at 200 (\<open>stC\<close>).
\<close>

definition pckB :: GF_FilterPacket where
  "pckB = pck0\<lparr>pck_cts := 100, pck_dts := 90\<rparr>"

definition stR :: RTStream where
  "stR = st0\<lparr>ts_at_range_start_plus_one := 51, ts_at_range_end := 1000\<rparr>"

definition stC0 :: RTStream where
  "stC0 = st0\<lparr>ts_at_range_start_plus_one := 51\<rparr>"

definition stC :: RTStream where
  "stC = st0\<lparr>ts_at_range_start_plus_one := 201\<rparr>"






text \<open>A queued packet: handle, timestamp, sync type and size.\<close>

definition mk_pck :: "nat \<Rightarrow> u64 \<Rightarrow> u32 \<Rightarrow> nat \<Rightarrow> GF_FilterPacket" where
  "mk_pck r t sap n =
     \<lparr>pck_ref = r, pck_dts = t, pck_cts = t, pck_dur = 20, pck_sap = sap, pck_deps = 0,
      pck_data = replicate n 0\<rparr>"

text \<open>
  A size split with target 500. \<open>ctxZ\<close> has no candidate yet, and the first
  sync-to-sync group of \<open>stZ\<close> holds 700 bytes. \<open>ctxY\<close> has the previous
  candidate 1000/1000 with 300 bytes and the current candidate 2000/1000, up
  to which \<open>stY\<close> holds 900 bytes.
\<close>

definition ctxZ :: GF_ReframerCtx where
  "ctxZ = ctx0\<lparr>extract_mode := EXTRACT_SIZE, split_size := 500\<rparr>"

definition stZ :: RTStream where
  "stZ = st0\<lparr>all_saps := False,
     pck_queue := [mk_pck 1 0 1 600, mk_pck 2 500 0 100, mk_pck 3 1000 1 100]\<rparr>"

definition ctxY :: GF_ReframerCtx where
  "ctxY = ctx0\<lparr>extract_mode := EXTRACT_SIZE, split_size := 500,
     xround := REFRAME_ROUND_CLOSEST, min_ts_computed := 2000, min_ts_scale := 1000,
     prev_min_ts_computed := 1000, prev_min_ts_scale := 1000, est_file_size := 300\<rparr>"

definition stY :: RTStream where
  "stY = st0\<lparr>all_saps := False,
     pck_queue := [mk_pck 1 0 1 300, mk_pck 2 1000 1 600, mk_pck 3 2000 1 100]\<rparr>"

text \<open>
  A sync-point split of a video stream (sync points at 0 and 10000) with an
  audio stream, and of three all-sync streams of which the second has queued
  a single packet.
\<close>

definition ctxS :: GF_ReframerCtx where
  "ctxS = ctx0\<lparr>extract_mode := EXTRACT_SAP\<rparr>"

definition stV :: RTStream where
  "stV = st0\<lparr>all_saps := False,
     pck_queue := [mk_pck 1 0 1 100, mk_pck 2 5000 0 100, mk_pck 3 10000 1 100,
                   mk_pck 4 10040 0 50]\<rparr>"

definition stA :: RTStream where
  "stA = st0\<lparr>pck_queue := [mk_pck 5 0 1 10, mk_pck 6 20 1 10, mk_pck 7 10020 1 10]\<rparr>"

definition stA1 :: RTStream where
  "stA1 = st0\<lparr>pck_queue := [mk_pck 1 0 1 10, mk_pck 2 10 1 10, mk_pck 3 40 1 10]\<rparr>"

definition stA2 :: RTStream where
  "stA2 = st0\<lparr>pck_queue := [mk_pck 4 30 1 10]\<rparr>"

definition stA3 :: RTStream where
  "stA3 = st0\<lparr>pck_queue := [mk_pck 5 0 1 10, mk_pck 6 20 1 10, mk_pck 7 40 1 10]\<rparr>"





text \<open>
  Real-time regulation with one clock per stream: a stream in microseconds
  anchored at the wall-clock time 1000 and the media time 0, the wall clock
  still at 1000, and a packet at 4001. The speed is 1.0 in \<open>ctxRT\<close> and 2.0
  in \<open>ctxRT2\<close>.
\<close>

definition ctxRT :: GF_ReframerCtx where
  "ctxRT = ctx0\<lparr>rt := REFRAME_RT_ON, clock_val := 1000\<rparr>"

definition ctxRT2 :: GF_ReframerCtx where
  "ctxRT2 = ctxRT\<lparr>speed := Finite 2\<rparr>"

definition stRT :: RTStream where
  "stRT = st0\<lparr>timescale := 1000000, sys_clock_at_init := 1000\<rparr>"

definition pckRT :: GF_FilterPacket where
  "pckRT = pck0\<lparr>pck_dts := 4001, pck_cts := 4001\<rparr>"


section \<open>Properties\<close>

subsection \<open>The parser\<close>

text \<open>A clock time never keeps a milliseconds field of 1000 or more.\<close>

lemma parse_clock_ms_bound:
  "parse_clock date = Some (h, m, s, ms) \<Longrightarrow> ms < 1000"
  by (auto simp: parse_clock_def Let_def split: if_splits)

text \<open>
  C10. The claim: a clock time whose milliseconds field is 1000 or more is
  accepted with the milliseconds replaced by 0, so that \<open>T1:2.5000\<close> is
  62000/1000. The milliseconds are indeed dropped, but the value the code
  returns is 3662000/1000: the first attempt, with the format
  \<open>T%u:%u:%u.%u\<close>, stores 1 in \<open>h\<close> and 2 in \<open>m\<close> before it fails at the
  dot, and the second attempt, which succeeds, overwrites \<open>m\<close>, \<open>s\<close> and \<open>ms\<close>
  only. The hour left behind adds 3600 seconds.
\<close>

theorem parse_date_T1_2_5000:
  "reframer_parse_date parse_other ''T1:2.5000'' fidx =
     \<lparr>pd_ok = True, pd_value = \<lparr>num = 3662000, den = 1000\<rparr>,
      pd_frame_idx_plus_one = fidx, pd_extract_mode = EXTRACT_RANGE\<rparr>"
  by (simp add: reframer_parse_date_def parse_clock_def fmt_hmsms_def fmt_msms_def
      stored_def conv_u_def isspace_def isdigit_def digit_val_def)

subsection \<open>The packet range classifier\<close>

text \<open>
  When the products fit in 63 bits, the two tests of the classifier are the
  comparisons of the exact integers.
\<close>

subsection \<open>The packet range classifier\<close>

text \<open>
  When the products fit in 63 bits, the machine products of the classifier
  are the products of the integers, so its two tests compare the exact
  rationals by cross-multiplication.
\<close>

lemma sint_mult_exact:
  fixes a b :: u64
  assumes "uint a * uint b < 2 ^ 63"
  shows "sint (a * b) = uint a * uint b"
proof -
  have "a * b = word_of_int (uint a * uint b)" by simp
  then have "sint (a * b) = signed_take_bit 63 (uint a * uint b)"
    by (simp only: sint_sbintrunc') simp
  moreover have "- (2 ^ 63) \<le> uint a * uint b"
    by (rule order_trans [of _ 0]) simp_all
  ultimately show ?thesis
    using assms by (simp add: signed_take_bit_int_eq_self)
qed

lemma sint_smult_exact:
  fixes n :: u64 and t :: u32
  assumes "- (2 ^ 63) \<le> sint n * uint t" "sint n * uint t < 2 ^ 63"
  shows "sint (n * ucast t) = sint n * uint t"
proof -
  have "n * ucast t = word_of_int (sint n * uint t)" by simp
  then have "sint (n * ucast t) = signed_take_bit 63 (sint n * uint t)"
    by (simp only: sint_sbintrunc') simp
  then show ?thesis
    using assms by (simp add: signed_take_bit_int_eq_self)
qed

lemma uint_add_exact:
  fixes ts :: u64 and dur :: u32
  assumes "uint ts + uint dur < 2 ^ 64"
  shows "uint (ts + ucast dur) = uint ts + uint dur"
proof -
  have "uint (ucast dur :: u64) = uint dur" by (simp add: uint_up_ucast is_up)
  then show ?thesis using assms uint_add_lem [of ts "ucast dur"] by simp
qed

lemma ts_before_start_exact:
  assumes "uint ts * uint (den (cur_start ctx)) < 2 ^ 63"
    and "- (2 ^ 63) \<le> sint (num (cur_start ctx)) * uint (timescale st)"
    and "sint (num (cur_start ctx)) * uint (timescale st) < 2 ^ 63"
  shows "ts_before_start ctx st ts \<longleftrightarrow>
    uint ts * uint (den (cur_start ctx)) < sint (num (cur_start ctx)) * uint (timescale st)"
  using assms by (simp add: ts_before_start_def sint_mult_exact sint_smult_exact)

lemma ts_after_end_exact:
  assumes "uint ts + uint dur < 2 ^ 64"
    and "(uint ts + uint dur) * uint (den (cur_end ctx)) < 2 ^ 63"
    and "- (2 ^ 63) \<le> sint (num (cur_end ctx)) * uint (timescale st)"
    and "sint (num (cur_end ctx)) * uint (timescale st) < 2 ^ 63"
  shows "ts_after_end ctx st ts dur \<longleftrightarrow>
    (uint ts + uint dur) * uint (den (cur_end ctx)) > sint (num (cur_end ctx)) * uint (timescale st)"
proof -
  have "sint ((ts + ucast dur) * den (cur_end ctx)) = (uint ts + uint dur) * uint (den (cur_end ctx))"
    using assms(1,2) sint_mult_exact [of "ts + ucast dur" "den (cur_end ctx)"]
    by (simp add: uint_add_exact)
  then show ?thesis
    using assms(3,4) by (simp add: ts_after_end_def sint_smult_exact)
qed

text \<open>
  C5, as the code has it. For a time-indexed range and a stream with no
  raw-audio frame size (\<open>abps = 0\<close>), the classifier never fails and leaves
  the sample count alone; it returns 2 exactly when the range is not open and
  \<open>(ts + dur) * end.den > end.num * timescale\<close> (strictly), whether or not the
  packet starts before the range; it returns 0 exactly when
  \<open>ts * start.den < start.num * timescale\<close> and the result is not 2; it
  returns 1 otherwise. The comparisons are the cross-multiplied integer tests
  \<open>ts_before_start\<close> and \<open>ts_after_end\<close>.
\<close>

theorem check_pck_range_time_indexed:
  assumes "start_frame_idx_plus_one ctx = 0" and "abps st = 0"
  shows "reframer_check_pck_range ctx st ts dur frame_idx keep =
    Inr (if range_type ctx \<noteq> RANGE_OPEN \<and> ts_after_end ctx st ts dur then 2
         else if ts_before_start ctx st ts then 0
         else 1, keep)"
  using assms by (simp add: reframer_check_pck_range_def)

theorem check_pck_range_time_indexed_witness:
  "start_frame_idx_plus_one ctx0 = 0 \<and> abps st0 = 0 \<and>
   reframer_check_pck_range ctx0 st0 10000 100 1 0 = Inr (1, 0) \<and>
   reframer_check_pck_range ctx0 st0 9000 100 1 0 = Inr (0, 0) \<and>
   reframer_check_pck_range ctx0 st0 19950 100 1 0 = Inr (2, 0)"
  using check_pck_range_time_indexed [of ctx0 st0 10000 100 1 0]
    check_pck_range_time_indexed [of ctx0 st0 9000 100 1 0]
    check_pck_range_time_indexed [of ctx0 st0 19950 100 1 0]
  by (simp add: ctx0_def st0_def ts_before_start_def ts_after_end_def)

text \<open>
  C5 as it was stated (0 if and only if the packet starts before the range)
  fails for a packet that starts before the range and ends after it: a
  packet at 0 ms lasting 100 s, against the range from 10 s to 20 s, starts
  before the range and is classified 2.
\<close>

theorem check_pck_range_before_and_after:
  "ts_before_start ctx0 st0 0 \<and>
   reframer_check_pck_range ctx0 st0 0 100000 1 0 = Inr (2, 0)"
  by (simp add: reframer_check_pck_range_def ctx0_def st0_def ts_before_start_def
      ts_after_end_def)

subsection \<open>The frame allow-list\<close>

text \<open>The search loop finds a frame number exactly when the list holds it.\<close>

lemma frame_listed_iff: "frame_listed fs n \<longleftrightarrow> n \<in> set fs"
  by (induction fs) auto

lemma speed_scale_frames: "speed_scale (ctx\<lparr>frames := fs\<rparr>) d = speed_scale ctx d"
  by (simp add: speed_scale_def)

lemma rt_regulate_frames:
  "rt_regulate K (ctx\<lparr>frames := fs\<rparr>) sts sid pck =
     (case rt_regulate K ctx sts sid pck of
        Inl e \<Rightarrow> Inl e
      | Inr (d, c, s, i) \<Rightarrow> Inr (d, c\<lparr>frames := fs\<rparr>, s, i))"
  by (simp add: rt_regulate_def Let_def speed_scale_frames split: option.splits)

lemma rt_regulate_range_type:
  "rt_regulate K ctx sts sid pck = Inr (d, c, s, i) \<Longrightarrow> range_type c = range_type ctx"
  by (auto simp: rt_regulate_def Let_def split: if_splits option.splits)

lemma rt_regulate_keeps_frames:
  "rt_regulate K ctx sts sid pck = Inr (d, c, s, i) \<Longrightarrow> frames c = frames ctx"
  by (auto simp: rt_regulate_def Let_def split: if_splits option.splits)

lemma make_new_pck_frames:
  "make_new_pck K (c\<lparr>frames := fs\<rparr>) st pck = make_new_pck K c st pck"
  by (simp add: make_new_pck_def Let_def cong: sum.case_cong if_cong)

lemma signal_chunk_start_frames:
  "signal_chunk_start K (c\<lparr>frames := fs\<rparr>) st new = signal_chunk_start K c st new"
  by (simp add: signal_chunk_start_def cong: sum.case_cong)

lemma rewrite_timestamps_frames:
  "rewrite_timestamps K (c\<lparr>frames := fs\<rparr>) st pck off new = rewrite_timestamps K c st pck off new"
  by (simp add: rewrite_timestamps_def Let_def)

lemma emit_packet_frames:
  "emit_packet K (c\<lparr>frames := fs\<rparr>) st pck = emit_packet K c st pck"
  by (simp add: emit_packet_def make_new_pck_frames signal_chunk_start_frames
      rewrite_timestamps_frames cong: sum.case_cong prod.case_cong)

text \<open>Only the set of the listed frames matters.\<close>

lemma send_packet_frames_set:
  assumes "set fs = set (frames ctx)"
  shows "reframer_send_packet K (ctx\<lparr>frames := fs\<rparr>) sts sid pck pck_is_ref =
    (case reframer_send_packet K ctx sts sid pck pck_is_ref of
       Inl e \<Rightarrow> Inl e
     | Inr (b, c, s) \<Rightarrow> Inr (b, c\<lparr>frames := fs\<rparr>, s))"
proof (cases "rt_regulate K ctx sts sid pck")
  case (Inl e)
  then show ?thesis by (simp add: reframer_send_packet_def rt_regulate_frames)
next
  case (Inr r)
  obtain d c s i where r: "r = (d, c, s, i)" by (cases r)
  have fr: "frames c = frames ctx"
    using Inr r rt_regulate_keeps_frames by metis
  have e: "fs = [] \<longleftrightarrow> frames c = []"
    using assms fr by (metis set_empty)
  show ?thesis
    using Inr r e assms fr
    by (simp add: reframer_send_packet_def rt_regulate_frames emit_packet_frames Let_def
        frame_listed_iff split: sum.splits)
qed

lemma make_new_pck_sent:
  "make_new_pck K c st pck = Inr (new, off, dur, st1) \<Longrightarrow> opid_sent st1 = opid_sent st"
  by (auto simp: make_new_pck_def Let_def split: if_splits sum.splits)

lemma signal_chunk_start_sent:
  "signal_chunk_start K c st new = Inr (new', st1) \<Longrightarrow> opid_sent st1 = opid_sent st"
  by (auto simp: signal_chunk_start_def split: if_splits sum.splits)

lemma adjust_split_durations_sent:
  "adjust_split_durations st pck new = (new', st1) \<Longrightarrow> opid_sent st1 = opid_sent st"
  by (auto simp: adjust_split_durations_def Let_def split: if_splits prod.splits)

lemma emit_packet_sent:
  assumes "emit_packet K c st pck = Inr st1"
  shows "\<exists>p. opid_sent st1 = opid_sent st @ [p]"
proof (cases "ts_at_range_start_plus_one st = 0")
  case True
  then show ?thesis using assms by (auto simp: emit_packet_def)
next
  case False
  from assms False obtain new off dur sa off' new1 new2 sb where
    a: "make_new_pck K c st pck = Inr (new, off, dur, sa)"
    and b: "rescale_split sa off dur new = Inr (off', new1)"
    and cc: "signal_chunk_start K c sa new1 = Inr (new2, sb)"
    and d: "st1 = (case adjust_split_durations sb pck (rewrite_timestamps K c sb pck off' new2) of
                     (new4, st3) \<Rightarrow> st3\<lparr>opid_sent := opid_sent st3 @ [new4]\<rparr>)"
    by (auto simp: emit_packet_def Let_def split: sum.splits prod.splits)
  obtain new4 st3 where e: "adjust_split_durations sb pck (rewrite_timestamps K c sb pck off' new2) = (new4, st3)"
    by (cases "adjust_split_durations sb pck (rewrite_timestamps K c sb pck off' new2)")
  have "opid_sent st3 = opid_sent st"
    using make_new_pck_sent [OF a] signal_chunk_start_sent [OF cc]
      adjust_split_durations_sent [OF e] by simp
  then show ?thesis using d e by simp
qed

lemma emit_packet_forward:
  "ts_at_range_start_plus_one st = 0 \<Longrightarrow>
   emit_packet K c st pck = Inr (st\<lparr>opid_sent := opid_sent st @ [new_pck_from pck (map Some (pck_data pck))]\<rparr>)"
  by (simp add: emit_packet_def)

lemma rt_regulate_off:
  "rt ctx = REFRAME_RT_OFF \<Longrightarrow> rt_regulate K ctx sts sid pck = Inr (True, ctx, sts, sid)"
  by (simp add: rt_regulate_def)

lemma rt_regulate_not_sync:
  assumes "rt ctx \<noteq> REFRAME_RT_SYNC" and "rt ctx = REFRAME_RT_OFF \<or> timescale (sts sid) \<noteq> 0"
  shows "\<exists>d c s. rt_regulate K ctx sts sid pck = Inr (d, c, s, sid)
     \<and> range_type c = range_type ctx \<and> frames c = frames ctx
     \<and> opid_sent (s sid) = opid_sent (sts sid) \<and> nb_frames (s sid) = nb_frames (sts sid)
     \<and> ipid_pending (s sid) = ipid_pending (sts sid)
     \<and> ts_at_range_start_plus_one (s sid) = ts_at_range_start_plus_one (sts sid)"
  using assms by (auto simp: rt_regulate_def Let_def)

lemma rewrite_timestamps_src:
  "o_src (rewrite_timestamps K c st pck off new) = o_src new"
  by (simp add: rewrite_timestamps_def Let_def)

lemma adjust_split_durations_src:
  "adjust_split_durations st pck new = (new', st1) \<Longrightarrow>
     o_src new' = o_src new \<and> opid_sent st1 = opid_sent st \<and> nb_frames st1 = nb_frames st"
  by (auto simp: adjust_split_durations_def Let_def split: if_splits prod.splits)

lemma make_new_pck_plain:
  assumes "audio_samples_to_keep st = 0"
    and "codec_id st = GF_CODECID_TMCD K \<longrightarrow> 4 \<le> length (pck_data pck)"
  shows "\<exists>new. make_new_pck K c st pck = Inr (new, 0, 0, st) \<and> o_src new = pck_ref pck"
  using assms by (auto simp: make_new_pck_def Let_def new_pck_from_def)

lemma signal_chunk_start_src:
  assumes "first_pck_sent st \<or> file_suffix K (xs c) (xe c) (cur_range_idx c) (range_type c)
              (extract_mode c) (cur_start c) (cur_end c) = Inr suf"
  shows "\<exists>new' st1. signal_chunk_start K c st new = Inr (new', st1) \<and> o_src new' = o_src new
           \<and> opid_sent st1 = opid_sent st \<and> nb_frames st1 = nb_frames st"
  using assms by (auto simp: signal_chunk_start_def)

text \<open>
  A packet that is not a raw-audio fragment, nor a timecode sample shorter
  than its counter, is sent by the emission stage.
\<close>

lemma emit_packet_sends:
  assumes k: "audio_samples_to_keep st = 0"
    and t: "codec_id st = GF_CODECID_TMCD K \<longrightarrow> 4 \<le> length (pck_data pck)"
    and f: "file_suffix K (xs c) (xe c) (cur_range_idx c) (range_type c)
              (extract_mode c) (cur_start c) (cur_end c) = Inr suf"
  shows "\<exists>st1 p. emit_packet K c st pck = Inr st1 \<and> opid_sent st1 = opid_sent st @ [p]
           \<and> o_src p = pck_ref pck \<and> nb_frames st1 = nb_frames st"
proof (cases "ts_at_range_start_plus_one st = 0")
  case True
  then show ?thesis by (simp add: emit_packet_def new_pck_from_def)
next
  case False
  obtain new where a: "make_new_pck K c st pck = Inr (new, 0, 0, st)"
    and a1: "o_src new = pck_ref pck"
    using make_new_pck_plain [OF k t] by blast
  have b: "rescale_split st 0 0 new = Inr (0, new)" by (simp add: rescale_split_def)
  obtain new2 st2 where cc: "signal_chunk_start K c st new = Inr (new2, st2)"
    and c1: "o_src new2 = o_src new" and c2: "opid_sent st2 = opid_sent st"
    and c3: "nb_frames st2 = nb_frames st"
    using signal_chunk_start_src [where st = st and new = new, OF disjI2 [OF f]] by blast
  obtain new4 st3 where
    d: "adjust_split_durations st2 pck (rewrite_timestamps K c st2 pck 0 new2) = (new4, st3)"
    by (cases "adjust_split_durations st2 pck (rewrite_timestamps K c st2 pck 0 new2)")
  have d1: "o_src new4 = pck_ref pck" "opid_sent st3 = opid_sent st" "nb_frames st3 = nb_frames st"
    using adjust_split_durations_src [OF d] rewrite_timestamps_src c1 c2 c3 a1 by simp_all
  have "emit_packet K c st pck = Inr (st3\<lparr>opid_sent := opid_sent st3 @ [new4]\<rparr>)"
    using False a b cc d by (simp add: emit_packet_def)
  then show ?thesis using d1 by simp
qed

text \<open>
  C9. While a range is configured (\<open>range_type\<close> is not \<open>RANGE_NONE\<close>) the
  frame allow-list has no effect: whatever list replaces \<open>frames\<close>, the call
  of \<open>reframer_send_packet\<close> returns the same flag and leaves the same
  streams, faults included, and the context differs in the field \<open>frames\<close>
  only. And the packet is sent whatever the list holds: with real-time
  regulation off, a packet that is not a fragment of a raw-audio packet (nor
  a timecode sample shorter than its counter) is appended to the output of
  its stream, whose frame count grows by one, and the call returns true.
\<close>

theorem frames_ignored_in_range:
  assumes "range_type ctx \<noteq> RANGE_NONE"
  shows "reframer_send_packet K (ctx\<lparr>frames := fs\<rparr>) sts sid pck pck_is_ref =
          (case reframer_send_packet K ctx sts sid pck pck_is_ref of
             Inl e \<Rightarrow> Inl e
           | Inr (b, c, s) \<Rightarrow> Inr (b, c\<lparr>frames := fs\<rparr>, s))
       \<and> (rt ctx = REFRAME_RT_OFF \<and> audio_samples_to_keep (sts sid) = 0
            \<and> (codec_id (sts sid) = GF_CODECID_TMCD K \<longrightarrow> 4 \<le> length (pck_data pck))
            \<and> (\<exists>suf. file_suffix K (xs ctx) (xe ctx) (cur_range_idx ctx) (range_type ctx)
                        (extract_mode ctx) (cur_start ctx) (cur_end ctx) = Inr suf)
          \<longrightarrow> (\<exists>c s p. reframer_send_packet K (ctx\<lparr>frames := fs\<rparr>) sts sid pck pck_is_ref
                          = Inr (True, c, s)
                  \<and> opid_sent (s sid) = opid_sent (sts sid) @ [p] \<and> o_src p = pck_ref pck
                  \<and> nb_frames (s sid) = nb_frames (sts sid) + 1))"
proof (intro conjI impI)
  show "reframer_send_packet K (ctx\<lparr>frames := fs\<rparr>) sts sid pck pck_is_ref =
          (case reframer_send_packet K ctx sts sid pck pck_is_ref of
             Inl e \<Rightarrow> Inl e
           | Inr (b, c, s) \<Rightarrow> Inr (b, c\<lparr>frames := fs\<rparr>, s))"
  proof (cases "rt_regulate K ctx sts sid pck")
    case (Inl e)
    then show ?thesis by (simp add: reframer_send_packet_def rt_regulate_frames)
  next
    case (Inr r)
    obtain d c s i where r: "r = (d, c, s, i)" by (cases r)
    have rt: "range_type c \<noteq> RANGE_NONE"
      using Inr r assms rt_regulate_range_type by metis
    show ?thesis
      using Inr r rt
      by (simp add: reframer_send_packet_def rt_regulate_frames emit_packet_frames Let_def
          split: sum.splits)
  qed
next
  assume h: "rt ctx = REFRAME_RT_OFF \<and> audio_samples_to_keep (sts sid) = 0
            \<and> (codec_id (sts sid) = GF_CODECID_TMCD K \<longrightarrow> 4 \<le> length (pck_data pck))
            \<and> (\<exists>suf. file_suffix K (xs ctx) (xe ctx) (cur_range_idx ctx) (range_type ctx)
                        (extract_mode ctx) (cur_start ctx) (cur_end ctx) = Inr suf)"
  then obtain suf where
    f: "file_suffix K (xs ctx) (xe ctx) (cur_range_idx ctx) (range_type ctx)
          (extract_mode ctx) (cur_start ctx) (cur_end ctx) = Inr suf"
    by blast
  obtain st1 p where e: "emit_packet K ctx (sts sid) pck = Inr st1"
    and e1: "opid_sent st1 = opid_sent (sts sid) @ [p]" and e2: "o_src p = pck_ref pck"
    and e3: "nb_frames st1 = nb_frames (sts sid)"
    using emit_packet_sends [where st = "sts sid" and c = ctx and K = K and pck = pck
        and suf = suf] h f
    by blast
  have r: "rt_regulate K (ctx\<lparr>frames := fs\<rparr>) sts sid pck
             = Inr (True, ctx\<lparr>frames := fs\<rparr>, sts, sid)"
    using h by (simp add: rt_regulate_off)
  show "\<exists>c s p. reframer_send_packet K (ctx\<lparr>frames := fs\<rparr>) sts sid pck pck_is_ref
                          = Inr (True, c, s)
                  \<and> opid_sent (s sid) = opid_sent (sts sid) @ [p] \<and> o_src p = pck_ref pck
                  \<and> nb_frames (s sid) = nb_frames (sts sid) + 1"
    using assms r e e1 e2 e3
    by (simp add: reframer_send_packet_def emit_packet_frames reframer_drop_packet_def Let_def)
qed

theorem frames_ignored_in_range_witness:
  "range_type ctx0 \<noteq> RANGE_NONE \<and> rt ctx0 = REFRAME_RT_OFF
   \<and> nb_frames stR + 1 \<notin> set [5]
   \<and> (case reframer_send_packet K0 (ctx0\<lparr>frames := [5]\<rparr>) (\<lambda>i. stR) 0 pckB True of
         Inl e \<Rightarrow> False
       | Inr (b, c, s) \<Rightarrow>
           b \<and> map o_src (opid_sent (s 0)) = [pck_ref pckB] \<and> nb_frames (s 0) = 1)"
proof -
  have h: "range_type ctx0 \<noteq> RANGE_NONE" "rt ctx0 = REFRAME_RT_OFF"
    "audio_samples_to_keep stR = 0" "codec_id stR \<noteq> GF_CODECID_TMCD K0"
    "file_suffix K0 (xs ctx0) (xe ctx0) (cur_range_idx ctx0) (range_type ctx0)
       (extract_mode ctx0) (cur_start ctx0) (cur_end ctx0) = Inr []"
    by (simp_all add: ctx0_def stR_def st0_def K0_def)
  have v: "opid_sent stR = []" "nb_frames stR = 0"
    by (simp_all add: stR_def st0_def)
  have "\<exists>c s p. reframer_send_packet K0 (ctx0\<lparr>frames := [5]\<rparr>) (\<lambda>i. stR) 0 pckB True
                   = Inr (True, c, s)
           \<and> opid_sent (s 0) = opid_sent stR @ [p] \<and> o_src p = pck_ref pckB
           \<and> nb_frames (s 0) = nb_frames stR + 1"
    using frames_ignored_in_range [where ctx = ctx0 and K = K0 and fs = "[5]"
        and sts = "\<lambda>i. stR" and sid = 0 and pck = pckB and pck_is_ref = True,
        OF h(1), THEN conjunct2] h(2-5)
    by simp
  then show ?thesis using h(1,2) by (auto simp: v)
qed

text \<open>
  C8, as the code has it. When the allow-list is not empty, no range is
  configured (\<open>range_type\<close> is \<open>RANGE_NONE\<close>) and the real-time mode is not
  the shared clock, a packet is dropped unsent if and only if the number
  \<open>nb_frames + 1\<close> of its stream is not in the list; with real-time
  regulation off and no range active on the stream it is forwarded if and
  only if that number is in the list; and a list with the same entries in
  another order (or repeated) gives the same result.
\<close>

theorem frames_filter:
  assumes "range_type ctx = RANGE_NONE" and "frames ctx \<noteq> []"
    and "rt ctx \<noteq> REFRAME_RT_SYNC"
    and "rt ctx = REFRAME_RT_OFF \<or> timescale (sts sid) \<noteq> 0"
  shows "(dropped_unsent sts sid (reframer_send_packet K ctx sts sid pck pck_is_ref)
            \<longleftrightarrow> nb_frames (sts sid) + 1 \<notin> set (frames ctx))
       \<and> (rt ctx = REFRAME_RT_OFF \<and> ts_at_range_start_plus_one (sts sid) = 0 \<longrightarrow>
            (forwarded sts sid pck (reframer_send_packet K ctx sts sid pck pck_is_ref)
               \<longleftrightarrow> nb_frames (sts sid) + 1 \<in> set (frames ctx)))
       \<and> (\<forall>fs. set fs = set (frames ctx) \<longrightarrow>
            reframer_send_packet K (ctx\<lparr>frames := fs\<rparr>) sts sid pck pck_is_ref =
              (case reframer_send_packet K ctx sts sid pck pck_is_ref of
                 Inl e \<Rightarrow> Inl e
               | Inr (b, c, s) \<Rightarrow> Inr (b, c\<lparr>frames := fs\<rparr>, s)))"
proof (intro conjI)
  obtain d c s where rr: "rt_regulate K ctx sts sid pck = Inr (d, c, s, sid)"
    and c1: "range_type c = RANGE_NONE" and c2: "frames c = frames ctx"
    and s1: "opid_sent (s sid) = opid_sent (sts sid)"
    and s2: "nb_frames (s sid) = nb_frames (sts sid)"
    and s3: "ipid_pending (s sid) = ipid_pending (sts sid)"
    using rt_regulate_not_sync [where ctx = ctx and sts = sts and sid = sid and K = K and pck = pck] assms by auto
  show "dropped_unsent sts sid (reframer_send_packet K ctx sts sid pck pck_is_ref)
            \<longleftrightarrow> nb_frames (sts sid) + 1 \<notin> set (frames ctx)"
  proof (cases "nb_frames (sts sid) + 1 \<in> set (frames ctx)")
    case False
    then show ?thesis
      using rr c1 c2 s1 s2 s3 assms(2)
      by (simp add: reframer_send_packet_def dropped_unsent_def frame_listed_iff)
  next
    case True
    show ?thesis
    proof (cases "emit_packet K c (s sid) pck")
      case (Inl e)
      then show ?thesis using True rr c1 c2 s2 assms(2)
        by (simp add: reframer_send_packet_def dropped_unsent_def frame_listed_iff)
    next
      case (Inr st1)
      then obtain p where "opid_sent st1 = opid_sent (s sid) @ [p]"
        using emit_packet_sent by blast
      then show ?thesis using True rr c1 c2 s1 s2 assms(2) Inr
        by (simp add: reframer_send_packet_def dropped_unsent_def frame_listed_iff
            reframer_drop_packet_def Let_def)
    qed
  qed
next
  show "rt ctx = REFRAME_RT_OFF \<and> ts_at_range_start_plus_one (sts sid) = 0 \<longrightarrow>
            (forwarded sts sid pck (reframer_send_packet K ctx sts sid pck pck_is_ref)
               \<longleftrightarrow> nb_frames (sts sid) + 1 \<in> set (frames ctx))"
    using assms(1,2)
    by (auto simp: reframer_send_packet_def rt_regulate_off emit_packet_forward forwarded_def
        frame_listed_iff reframer_drop_packet_def Let_def)
next
  show "\<forall>fs. set fs = set (frames ctx) \<longrightarrow>
            reframer_send_packet K (ctx\<lparr>frames := fs\<rparr>) sts sid pck pck_is_ref =
              (case reframer_send_packet K ctx sts sid pck pck_is_ref of
                 Inl e \<Rightarrow> Inl e
               | Inr (b, c, s) \<Rightarrow> Inr (b, c\<lparr>frames := fs\<rparr>, s))"
    using send_packet_frames_set by blast
qed

theorem frames_filter_witness:
  "range_type ctxF = RANGE_NONE \<and> frames ctxF \<noteq> [] \<and> rt ctxF \<noteq> REFRAME_RT_SYNC \<and>
   forwarded (\<lambda>i. st0) 0 pck0 (reframer_send_packet K0 ctxF (\<lambda>i. st0) 0 pck0 False) \<and>
   dropped_unsent (\<lambda>i. st0\<lparr>nb_frames := 1\<rparr>) 0
     (reframer_send_packet K0 ctxF (\<lambda>i. st0\<lparr>nb_frames := 1\<rparr>) 0 pck0 False)"
proof -
  have h1: "range_type ctxF = RANGE_NONE" and h2: "frames ctxF \<noteq> []"
    and h3: "rt ctxF \<noteq> REFRAME_RT_SYNC" and off: "rt ctxF = REFRAME_RT_OFF"
    and fr: "frames ctxF = [3, 1]"
    by (simp_all add: ctxF_def ctx0_def)
  have s: "nb_frames st0 = 0" "ts_at_range_start_plus_one st0 = 0"
    by (simp_all add: st0_def)
  have "forwarded (\<lambda>i. st0) 0 pck0 (reframer_send_packet K0 ctxF (\<lambda>i. st0) 0 pck0 False)"
    using frames_filter [where ctx = ctxF and K = K0 and sts = "\<lambda>i. st0" and sid = 0
        and pck = pck0 and pck_is_ref = False] h1 h2 h3 off
    by (simp add: fr s)
  moreover have "dropped_unsent (\<lambda>i. st0\<lparr>nb_frames := 1\<rparr>) 0
     (reframer_send_packet K0 ctxF (\<lambda>i. st0\<lparr>nb_frames := 1\<rparr>) 0 pck0 False)"
    using frames_filter [where ctx = ctxF and K = K0 and sts = "\<lambda>i. st0\<lparr>nb_frames := 1\<rparr>"
        and sid = 0 and pck = pck0 and pck_is_ref = False] h1 h2 h3 off
    by (simp add: fr)
  ultimately show ?thesis using h1 h2 h3 by simp
qed

text \<open>
  C8 as it was stated fails while a range is configured: with the list
  \<open>[5]\<close> and a closed range, the first packet of a stream, whose number 1 is
  not listed, is forwarded.
\<close>

theorem frames_not_consulted_in_range:
  "frames (ctx0\<lparr>frames := [5]\<rparr>) \<noteq> [] \<and>
   nb_frames st0 + 1 \<notin> set (frames (ctx0\<lparr>frames := [5]\<rparr>)) \<and>
   forwarded (\<lambda>i. st0) 0 pck0
     (reframer_send_packet K0 (ctx0\<lparr>frames := [5]\<rparr>) (\<lambda>i. st0) 0 pck0 True)"
  by (simp add: reframer_send_packet_def rt_regulate_def emit_packet_def forwarded_def
      reframer_drop_packet_def ctx0_def st0_def Let_def)

subsection \<open>The timestamp rewrite\<close>

text \<open>
  The 64-bit sums of the rewrite are the image of the integer
  \<open>rewritten_ts\<close>; when that integer fits a signed 64-bit value the signed
  reading gives it back, and the unsigned reading too when it is not
  negative.
\<close>

lemma rewritten_word:
  fixes ts :: u64 and off :: u32
  shows "ts + ucast off + tk_delay st + ts_at_range_end st - (ts_at_range_start_plus_one st - 1)
    = word_of_int (rewritten_ts st ts off)"
  by (simp add: rewritten_ts_def)

lemma sint_rewritten:
  assumes "fits_s64 (rewritten_ts st ts off)"
  shows "sint (ts + ucast off + tk_delay st + ts_at_range_end st - (ts_at_range_start_plus_one st - 1))
    = rewritten_ts st ts off"
  using assms unfolding rewritten_word fits_s64_def
  by (simp add: sint_sbintrunc' signed_take_bit_int_eq_self)

lemma uint_rewritten:
  assumes "fits_s64 (rewritten_ts st ts off)" and "0 \<le> rewritten_ts st ts off"
  shows "uint (ts + ucast off + tk_delay st + ts_at_range_end st - (ts_at_range_start_plus_one st - 1))
    = rewritten_ts st ts off"
proof -
  have "rewritten_ts st ts off < 2 ^ 64"
    using assms(1) by (simp add: fits_s64_def)
  then show ?thesis
    unfolding rewritten_word using assms(2)
    by (simp add: uint_word_of_int take_bit_int_eq_self)
qed

lemma o_cts_rewritten:
  assumes "pck_cts pck + ucast cts_offset \<noteq> GF_FILTER_NO_TS K"
    and "fits_s64 (rewritten_ts st (pck_cts pck) cts_offset)"
  shows "uint (o_cts (rewrite_timestamps K ctx st pck cts_offset new))
           = max 0 (rewritten_ts st (pck_cts pck) cts_offset)"
proof (cases "rewritten_ts st (pck_cts pck) cts_offset < 0")
  case True
  then show ?thesis
    using assms sint_rewritten [OF assms(2)]
    by (simp add: rewrite_timestamps_def Let_def)
next
  case False
  then show ?thesis
    using assms sint_rewritten [OF assms(2)] uint_rewritten [OF assms(2)]
    by (simp add: rewrite_timestamps_def Let_def)
qed


lemma o_dts_raw:
  assumes "pck_cts pck + ucast cts_offset \<noteq> GF_FILTER_NO_TS K" and "raw ctx"
  shows "o_dts (rewrite_timestamps K ctx st pck cts_offset new)
           = o_cts (rewrite_timestamps K ctx st pck cts_offset new)"
  using assms by (simp add: rewrite_timestamps_def Let_def)

lemma o_dts_rewritten:
  assumes "\<not> raw ctx" and "pck_dts pck + ucast cts_offset \<noteq> GF_FILTER_NO_TS K"
    and "fits_s64 (rewritten_ts st (pck_dts pck) cts_offset)"
    and "0 \<le> rewritten_ts st (pck_dts pck) cts_offset"
  shows "uint (o_dts (rewrite_timestamps K ctx st pck cts_offset new))
           = rewritten_ts st (pck_dts pck) cts_offset"
proof -
  have e: "pck_dts pck + ucast cts_offset + tk_delay st - (ts_at_range_start_plus_one st - 1)
             + ts_at_range_end st
      = pck_dts pck + ucast cts_offset + tk_delay st + ts_at_range_end st
          - (ts_at_range_start_plus_one st - 1)"
    by simp
  have "o_dts (rewrite_timestamps K ctx st pck cts_offset new)
      = pck_dts pck + ucast cts_offset + tk_delay st - (ts_at_range_start_plus_one st - 1)
          + ts_at_range_end st"
    using assms(1,2) by (simp add: rewrite_timestamps_def Let_def)
  then show ?thesis
    using uint_rewritten [OF assms(3,4)] by (simp only: e)
qed

text \<open>
  C3, as the code has it. For a packet sent while a range is active, whose
  presentation timestamp (plus the offset \<open>cts_offset\<close> inside a split
  raw-audio packet, 0 otherwise) is known: the output presentation timestamp
  is \<open>original_ts + cts_offset + tk_delay - (ts_at_range_start_plus_one - 1)
  + ts_at_range_end\<close>, and 0 when that value is negative. In raw mode the
  output decoding timestamp is the output presentation timestamp. Otherwise
  the output decoding timestamp is the same formula on the original decoding
  timestamp, whenever that one is known and the value is not negative. The
  values are taken to fit a signed 64-bit integer.
\<close>

theorem rewrite_timestamps_range:
  assumes "pck_cts pck + ucast cts_offset \<noteq> GF_FILTER_NO_TS K"
    and "fits_s64 (rewritten_ts st (pck_cts pck) cts_offset)"
  shows "uint (o_cts (rewrite_timestamps K ctx st pck cts_offset new))
           = max 0 (rewritten_ts st (pck_cts pck) cts_offset)
       \<and> (raw ctx \<longrightarrow>
            o_dts (rewrite_timestamps K ctx st pck cts_offset new)
              = o_cts (rewrite_timestamps K ctx st pck cts_offset new))
       \<and> (\<not> raw ctx \<and> pck_dts pck + ucast cts_offset \<noteq> GF_FILTER_NO_TS K
            \<and> fits_s64 (rewritten_ts st (pck_dts pck) cts_offset)
            \<and> 0 \<le> rewritten_ts st (pck_dts pck) cts_offset \<longrightarrow>
            uint (o_dts (rewrite_timestamps K ctx st pck cts_offset new))
              = rewritten_ts st (pck_dts pck) cts_offset)"
  using assms o_cts_rewritten o_dts_raw o_dts_rewritten by blast

theorem rewrite_timestamps_range_witness:
  "pck_cts pckB + ucast (0 :: u32) \<noteq> GF_FILTER_NO_TS K0
   \<and> fits_s64 (rewritten_ts stR (pck_cts pckB) 0)
   \<and> uint (o_cts (rewrite_timestamps K0 ctx0 stR pckB 0 (new_pck_from pckB []))) = 1050
   \<and> uint (o_dts (rewrite_timestamps K0 ctx0 stR pckB 0 (new_pck_from pckB []))) = 1040
   \<and> fits_s64 (rewritten_ts stC (pck_cts pckB) 0)
   \<and> uint (o_cts (rewrite_timestamps K0 ctx0 stC pckB 0 (new_pck_from pckB []))) = 0"
proof -
  have k: "pck_cts pckB + ucast (0 :: u32) \<noteq> GF_FILTER_NO_TS K0"
    "pck_dts pckB + ucast (0 :: u32) \<noteq> GF_FILTER_NO_TS K0" "\<not> raw ctx0"
    by (simp_all add: pckB_def pck0_def K0_def ctx0_def)
  have v: "rewritten_ts stR (pck_cts pckB) 0 = 1050" "rewritten_ts stR (pck_dts pckB) 0 = 1040"
    "rewritten_ts stC (pck_cts pckB) 0 = - 100"
    by (simp_all add: rewritten_ts_def stR_def stC_def st0_def pckB_def pck0_def)
  have f: "fits_s64 (rewritten_ts stR (pck_cts pckB) 0)"
    "fits_s64 (rewritten_ts stR (pck_dts pckB) 0)"
    "fits_s64 (rewritten_ts stC (pck_cts pckB) 0)"
    by (simp_all add: v fits_s64_def)
  show ?thesis
    using rewrite_timestamps_range [OF k(1) f(1), of ctx0 "new_pck_from pckB []"]
      rewrite_timestamps_range [OF k(1) f(3), of ctx0 "new_pck_from pckB []"]
      k f by (simp add: v)
qed

text \<open>
  C3 as it was stated fails on the decoding timestamp. For a packet with
  presentation timestamp 100 and decoding timestamp 90 in a range that
  starts at 50, the output presentation timestamp is 50 and the output
  decoding timestamp is 40 outside raw mode but 50 in raw mode, so no single
  original timestamp gives both outputs in both modes. And outside raw mode a
  decoding timestamp of 0 gives the output \<open>2\<^sup>6\<^sup>4 - 50\<close>: the negative value
  is not clamped to 0.
\<close>

theorem rewrite_dts_not_as_claimed:
  "o_cts (rewrite_timestamps K0 ctx0 stC0 pckB 0 (new_pck_from pckB [])) = 50
   \<and> o_dts (rewrite_timestamps K0 ctx0 stC0 pckB 0 (new_pck_from pckB [])) = 40
   \<and> o_dts (rewrite_timestamps K0 (ctx0\<lparr>raw := True\<rparr>) stC0 pckB 0 (new_pck_from pckB [])) = 50
   \<and> o_dts (rewrite_timestamps K0 ctx0 stC0 (pckB\<lparr>pck_dts := 0\<rparr>) 0 (new_pck_from pckB []))
        = 18446744073709551566"
  by (simp add: rewrite_timestamps_def K0_def ctx0_def stC0_def st0_def pckB_def pck0_def
      new_pck_from_def Let_def)

subsection \<open>Continuity across ranges\<close>




subsection \<open>The size split: the choice of the candidate\<close>

text \<open>
  Differences of sizes below \<open>2\<^sup>6\<^sup>3\<close> are exact as signed 64-bit values, and
  \<open>ABS\<close> is then the absolute value.
\<close>

lemma sint_diff_exact:
  fixes a b :: u64
  assumes "uint a < 2 ^ 63" and "uint b < 2 ^ 63"
  shows "sint (a - b) = uint a - uint b"
proof -
  have "a - b = word_of_int (uint a - uint b)" by simp
  then have "sint (a - b) = signed_take_bit 63 (uint a - uint b)"
    by (simp only: sint_sbintrunc') simp
  moreover have "- (2 ^ 63) \<le> uint a - uint b" "uint a - uint b < 2 ^ 63"
    using assms uint_ge_0 [of a] uint_ge_0 [of b] by linarith+
  ultimately show ?thesis by (simp add: signed_take_bit_int_eq_self)
qed

lemma sint_ABS:
  fixes d :: u64
  assumes "- (2 ^ 63) < sint d"
  shows "sint (ABS d) = \<bar>sint d\<bar>"
proof (cases "0 < sint d")
  case True
  then show ?thesis by (simp add: ABS_def)
next
  case False
  have "- d = word_of_int (- sint d)" by simp
  then have "sint (- d) = signed_take_bit 63 (- sint d)"
    by (simp only: sint_sbintrunc') simp
  moreover have "- sint d < 2 ^ 63" "- (2 ^ 63) \<le> - sint d"
    using assms False by linarith+
  ultimately have "sint (- d) = - sint d" by (simp add: signed_take_bit_int_eq_self)
  then show ?thesis using False by (simp add: ABS_def)
qed

lemma use_prev_closest:
  assumes "xround ctx = REFRAME_ROUND_CLOSEST"
    and "uint (split_size ctx) < 2 ^ 63" and "uint (est_file_size ctx) < 2 ^ 63"
    and "uint cum < 2 ^ 63"
  shows "use_prev_estimate ctx cum \<longleftrightarrow>
    prev_min_ts_scale ctx \<noteq> 0
    \<and> \<bar>uint (split_size ctx) - uint (est_file_size ctx)\<bar> \<le> \<bar>uint (split_size ctx) - uint cum\<bar>"
proof -
  have p: "sint (split_size ctx - est_file_size ctx) = uint (split_size ctx) - uint (est_file_size ctx)"
    using assms by (simp add: sint_diff_exact)
  have c: "sint (split_size ctx - cum) = uint (split_size ctx) - uint cum"
    using assms by (simp add: sint_diff_exact)
  have "- (2 ^ 63) < sint (split_size ctx - est_file_size ctx)"
    unfolding p using assms(2,3) uint_ge_0 [of "split_size ctx"] uint_ge_0 [of "est_file_size ctx"] by linarith
  then have ap: "sint (ABS (split_size ctx - est_file_size ctx)) = \<bar>uint (split_size ctx) - uint (est_file_size ctx)\<bar>"
    using sint_ABS p by simp
  have "- (2 ^ 63) < sint (split_size ctx - cum)"
    unfolding c using assms(2,4) uint_ge_0 [of "split_size ctx"] uint_ge_0 [of cum] by linarith
  then have ac: "sint (ABS (split_size ctx - cum)) = \<bar>uint (split_size ctx) - uint cum\<bar>"
    using sint_ABS c by simp
  show ?thesis
    using assms(1) by (auto simp: use_prev_estimate_def Let_def ap ac)
qed

text \<open>
  C4, as the code has it. When the size estimation stops refining
  (\<open>size_split_step\<close> returns a choice), with \<open>cum\<close> the cumulated size up to
  the current candidate: under the policy before the previous candidate is
  used if there is one (\<open>prev_min_ts_scale\<close> is not 0) and the current one
  otherwise; under after the current one is used; under closest the
  previous one is used if there is one and its size is not farther from the
  target than the current size, the current one otherwise. The candidate
  used gives the cut point, its cumulated size becomes \<open>est_file_size\<close>, and
  the previous candidate is forgotten.
\<close>

theorem split_size_choice:
  assumes "size_split_step K ctx sts = Inr c"
    and "cum = cumulated_size (size_scan_streams K ctx sts)"
  shows "(xround ctx = REFRAME_ROUND_BEFORE \<longrightarrow>
            (use_prev_estimate ctx cum \<longleftrightarrow> prev_min_ts_scale ctx \<noteq> 0))
       \<and> (xround ctx = REFRAME_ROUND_AFTER \<longrightarrow> \<not> use_prev_estimate ctx cum)
       \<and> (xround ctx = REFRAME_ROUND_CLOSEST \<and> uint (split_size ctx) < 2 ^ 63
            \<and> uint (est_file_size ctx) < 2 ^ 63 \<and> uint cum < 2 ^ 63 \<longrightarrow>
            (use_prev_estimate ctx cum \<longleftrightarrow>
               prev_min_ts_scale ctx \<noteq> 0
               \<and> \<bar>uint (split_size ctx) - uint (est_file_size ctx)\<bar>
                    \<le> \<bar>uint (split_size ctx) - uint cum\<bar>))
       \<and> (use_prev_estimate ctx cum \<longrightarrow>
            est_file_size c = est_file_size ctx
            \<and> min_ts_computed c = prev_min_ts_computed ctx
            \<and> min_ts_scale c = prev_min_ts_scale ctx)
       \<and> (\<not> use_prev_estimate ctx cum \<longrightarrow>
            est_file_size c = cum
            \<and> min_ts_computed c = min_ts_computed ctx
            \<and> min_ts_scale c = min_ts_scale ctx)
       \<and> prev_min_ts_computed c = 0 \<and> prev_min_ts_scale c = 0"
proof -
  have c: "c = choose_split_size ctx cum"
    using assms by (simp add: size_split_step_def Let_def split: if_splits)
  show ?thesis
    unfolding c using use_prev_closest [of ctx cum]
    by (auto simp: choose_split_size_def use_prev_estimate_def Let_def)
qed

theorem split_size_choice_witness:
  "size_split_step K0 ctxY [stY] = Inr (choose_split_size ctxY 900)
   \<and> cumulated_size (size_scan_streams K0 ctxY [stY]) = 900
   \<and> use_prev_estimate ctxY 900
   \<and> est_file_size (choose_split_size ctxY 900) = 300
   \<and> min_ts_computed (choose_split_size ctxY 900) = 1000"
proof -
  have st: "size_split_step K0 ctxY [stY] = Inr (choose_split_size ctxY 900)"
    by code_simp
  have cum: "900 = cumulated_size (size_scan_streams K0 ctxY [stY])"
    by code_simp
  have v: "xround ctxY = REFRAME_ROUND_CLOSEST" "uint (split_size ctxY) = 500"
    "uint (est_file_size ctxY) = 300" "prev_min_ts_scale ctxY = 1000"
    "prev_min_ts_computed ctxY = 1000" "est_file_size ctxY = 300"
    by (simp_all add: ctxY_def ctx0_def)
  show ?thesis
    using split_size_choice [OF st cum] st cum by (simp add: v)
qed

text \<open>
  C4 as it was stated fails under the policy before when there is no
  previous candidate: the first candidate of a chunk (cut at 1000/1000,
  cumulated size 700) already exceeds the target 500, and it is the one
  chosen.
\<close>

theorem before_without_previous_candidate:
  "xround ctxZ = REFRAME_ROUND_BEFORE \<and> prev_min_ts_scale ctxZ = 0
   \<and> (case check_gop_split K0 ctxZ [stZ] of
         Inl e \<Rightarrow> False
       | Inr (b, c, s) \<Rightarrow>
           b \<and> est_file_size c = 700 \<and> cur_end c = \<lparr>num = 1000, den = 1000\<rparr>)"
  by code_simp

subsection \<open>The cut point of the alignment engine\<close>

text \<open>
  Two rationals compared by cross-multiplication: the comparison passes from
  one pair to the next when the timescales are positive; and the 64-bit
  products are the products of the integers when they fit.
\<close>

lemma cross_trans:
  fixes c m t s v a :: int
  assumes "0 < a" and "c * a < m * t" and "m * s \<le> v * a" and "0 \<le> s" and "0 \<le> t"
  shows "c * s \<le> v * t"
proof -
  have "(c * a) * s \<le> (m * t) * s"
    using assms(2,4) by (simp add: mult_right_mono)
  also have "\<dots> = t * (m * s)" by (simp add: ac_simps)
  also have "\<dots> \<le> t * (v * a)"
    using assms(3,5) by (simp add: mult_left_mono)
  finally have "(c * s) * a \<le> (v * t) * a" by (simp add: ac_simps)
  then show ?thesis using assms(1) by simp
qed

lemma uint_cross:
  fixes x :: u64 and t :: u32
  assumes "uint x * uint t < 2 ^ 64"
  shows "uint (x * ucast t) = uint x * uint t"
proof -
  have "uint (ucast t :: u64) = uint t" by (simp add: uint_up_ucast is_up)
  then show ?thesis using assms uint_mult_lem [of x "ucast t"] by simp
qed

lemma pool_min_step:
  assumes pm: "pool_min K ctx pool m s"
    and cand: "\<forall>st \<in> set (pool @ [x]). sap_candidate K ctx st \<noteq> 0 \<and> timescale st \<noteq> 0"
    and bound: "\<forall>st \<in> set (pool @ [x]). \<forall>st' \<in> set (pool @ [x]).
        uint (sap_candidate K ctx st) * uint (timescale st') < 2 ^ 64"
  shows "pool_min K ctx (pool @ [x])
     (if m = 0 \<or> sap_candidate K ctx x * ucast s < m * ucast (timescale x)
      then sap_candidate K ctx x else m)
     (if m = 0 \<or> sap_candidate K ctx x * ucast s < m * ucast (timescale x)
      then timescale x else s)"
proof (cases "pool = []")
  case True
  then have "m = 0" using pm by (simp add: pool_min_def)
  then show ?thesis using True by (simp add: pool_min_def)
next
  case False
  then obtain y where y: "y \<in> set pool" "m = sap_candidate K ctx y" "s = timescale y"
    and le: "\<forall>st \<in> set pool. uint m * uint (timescale st) \<le> uint (sap_candidate K ctx st) * uint s"
    using pm by (auto simp: pool_min_def)
  let ?c = "sap_candidate K ctx x"
  have m0: "m \<noteq> 0" and s0: "s \<noteq> 0" using y cand by auto
  have spos: "0 < uint s" using s0 by (simp add: word_neq_0_conv word_less_def)
  have b1: "uint ?c * uint s < 2 ^ 64" using bound y by auto
  have b2: "uint m * uint (timescale x) < 2 ^ 64" using bound y by auto
  have cmp: "?c * ucast s < m * ucast (timescale x)
      \<longleftrightarrow> uint ?c * uint s < uint m * uint (timescale x)"
    by (simp add: word_less_def uint_cross [OF b1] uint_cross [OF b2])
  show ?thesis
  proof (cases "?c * ucast s < m * ucast (timescale x)")
    case True
    have "\<forall>st \<in> set (pool @ [x]). uint ?c * uint (timescale st)
        \<le> uint (sap_candidate K ctx st) * uint (timescale x)"
    proof
      fix st assume "st \<in> set (pool @ [x])"
      then consider "st \<in> set pool" | "st = x" by auto
      then show "uint ?c * uint (timescale st) \<le> uint (sap_candidate K ctx st) * uint (timescale x)"
      proof cases
        case 1
        show ?thesis
          using cross_trans [OF spos, of "uint ?c" "uint m" "uint (timescale x)"
              "uint (timescale st)" "uint (sap_candidate K ctx st)"]
            True cmp le 1 by simp
      next
        case 2
        then show ?thesis by simp
      qed
    qed
    then show ?thesis using True by (auto simp: pool_min_def)
  next
    case False
    then have "uint m * uint (timescale x) \<le> uint ?c * uint s" using cmp by simp
    then show ?thesis using False m0 y le by (auto simp: pool_min_def)
  qed
qed

lemma scan_stream_flags:
  assumes "sap_candidate K ctx x \<noteq> 0"
  shows "flush_all (scan_stream K ctx sc x) = flush_all sc"
    and "wait_for_sap (scan_stream K ctx sc x) = wait_for_sap sc"
    and "has_empty_streams (scan_stream K ctx sc x) = has_empty_streams sc"
proof -
  have "pck_queue x \<noteq> []"
    using assms by (auto simp: sap_candidate_def)
  then show "flush_all (scan_stream K ctx sc x) = flush_all sc"
    and "wait_for_sap (scan_stream K ctx sc x) = wait_for_sap sc"
    and "has_empty_streams (scan_stream K ctx sc x) = has_empty_streams sc"
    using assms by (simp_all add: scan_stream_def Let_def)
qed

lemma scan_stream_easy:
  assumes "sap_candidate K ctx x \<noteq> 0" and "all_saps x"
  shows "min_ts_a (scan_stream K ctx sc x)
      = (if min_ts_a sc = 0
            \<or> sap_candidate K ctx x * ucast (min_timescale_a sc) < min_ts_a sc * ucast (timescale x)
         then sap_candidate K ctx x else min_ts_a sc)"
    and "min_timescale_a (scan_stream K ctx sc x)
      = (if min_ts_a sc = 0
            \<or> sap_candidate K ctx x * ucast (min_timescale_a sc) < min_ts_a sc * ucast (timescale x)
         then timescale x else min_timescale_a sc)"
    and "min_ts (scan_stream K ctx sc x) = min_ts sc"
    and "min_timescale (scan_stream K ctx sc x) = min_timescale sc"
proof -
  have "pck_queue x \<noteq> []"
    using assms by (auto simp: sap_candidate_def)
  then show "min_ts_a (scan_stream K ctx sc x)
      = (if min_ts_a sc = 0
            \<or> sap_candidate K ctx x * ucast (min_timescale_a sc) < min_ts_a sc * ucast (timescale x)
         then sap_candidate K ctx x else min_ts_a sc)"
    and "min_timescale_a (scan_stream K ctx sc x)
      = (if min_ts_a sc = 0
            \<or> sap_candidate K ctx x * ucast (min_timescale_a sc) < min_ts_a sc * ucast (timescale x)
         then timescale x else min_timescale_a sc)"
    and "min_ts (scan_stream K ctx sc x) = min_ts sc"
    and "min_timescale (scan_stream K ctx sc x) = min_timescale sc"
    using assms by (simp_all add: scan_stream_def Let_def)
qed

lemma scan_stream_hard:
  assumes "sap_candidate K ctx x \<noteq> 0" and "\<not> all_saps x"
  shows "min_ts (scan_stream K ctx sc x)
      = (if min_ts sc = 0
            \<or> sap_candidate K ctx x * ucast (min_timescale sc) < min_ts sc * ucast (timescale x)
         then sap_candidate K ctx x else min_ts sc)"
    and "min_timescale (scan_stream K ctx sc x)
      = (if min_ts sc = 0
            \<or> sap_candidate K ctx x * ucast (min_timescale sc) < min_ts sc * ucast (timescale x)
         then timescale x else min_timescale sc)"
    and "min_ts_a (scan_stream K ctx sc x) = min_ts_a sc"
    and "min_timescale_a (scan_stream K ctx sc x) = min_timescale_a sc"
proof -
  have "pck_queue x \<noteq> []"
    using assms by (auto simp: sap_candidate_def)
  then show "min_ts (scan_stream K ctx sc x)
      = (if min_ts sc = 0
            \<or> sap_candidate K ctx x * ucast (min_timescale sc) < min_ts sc * ucast (timescale x)
         then sap_candidate K ctx x else min_ts sc)"
    and "min_timescale (scan_stream K ctx sc x)
      = (if min_ts sc = 0
            \<or> sap_candidate K ctx x * ucast (min_timescale sc) < min_ts sc * ucast (timescale x)
         then timescale x else min_timescale sc)"
    and "min_ts_a (scan_stream K ctx sc x) = min_ts_a sc"
    and "min_timescale_a (scan_stream K ctx sc x) = min_timescale_a sc"
    using assms by (simp_all add: scan_stream_def Let_def)
qed

lemma scan_invariant:
  assumes cand: "\<forall>st \<in> set sts. sap_candidate K ctx st \<noteq> 0 \<and> timescale st \<noteq> 0"
    and bound: "\<forall>st \<in> set sts. \<forall>st' \<in> set sts.
        uint (sap_candidate K ctx st) * uint (timescale st') < 2 ^ 64"
  shows "\<not> flush_all (foldl (scan_stream K ctx) gop_scan_init sts)
     \<and> \<not> wait_for_sap (foldl (scan_stream K ctx) gop_scan_init sts)
     \<and> \<not> has_empty_streams (foldl (scan_stream K ctx) gop_scan_init sts)
     \<and> pool_min K ctx (filter (\<lambda>st. \<not> all_saps st) sts)
          (min_ts (foldl (scan_stream K ctx) gop_scan_init sts))
          (min_timescale (foldl (scan_stream K ctx) gop_scan_init sts))
     \<and> pool_min K ctx (filter all_saps sts)
          (min_ts_a (foldl (scan_stream K ctx) gop_scan_init sts))
          (min_timescale_a (foldl (scan_stream K ctx) gop_scan_init sts))"
  using assms
proof (induction sts rule: rev_induct)
  case Nil
  then show ?case by (simp add: gop_scan_init_def pool_min_def)
next
  case (snoc x xs)
  define sc where "sc = foldl (scan_stream K ctx) gop_scan_init xs"
  have ih: "\<not> flush_all sc" "\<not> wait_for_sap sc" "\<not> has_empty_streams sc"
    "pool_min K ctx (filter (\<lambda>st. \<not> all_saps st) xs) (min_ts sc) (min_timescale sc)"
    "pool_min K ctx (filter all_saps xs) (min_ts_a sc) (min_timescale_a sc)"
    using snoc by (simp_all add: sc_def)
  have cx: "sap_candidate K ctx x \<noteq> 0" using snoc.prems by simp
  have f: "foldl (scan_stream K ctx) gop_scan_init (xs @ [x]) = scan_stream K ctx sc x"
    by (simp add: sc_def)
  show ?case
  proof (cases "all_saps x")
    case True
    have c: "\<forall>st \<in> set (filter all_saps xs @ [x]). sap_candidate K ctx st \<noteq> 0 \<and> timescale st \<noteq> 0"
      using snoc.prems(1) by auto
    have b: "\<forall>st \<in> set (filter all_saps xs @ [x]). \<forall>st' \<in> set (filter all_saps xs @ [x]).
        uint (sap_candidate K ctx st) * uint (timescale st') < 2 ^ 64"
      using snoc.prems(2) by auto
    show ?thesis
      unfolding f
      using pool_min_step [OF ih(5) c b] ih True
      by (simp add: scan_stream_flags [OF cx] scan_stream_easy [OF cx True])
  next
    case False
    have c: "\<forall>st \<in> set (filter (\<lambda>st. \<not> all_saps st) xs @ [x]). sap_candidate K ctx st \<noteq> 0 \<and> timescale st \<noteq> 0"
      using snoc.prems(1) by auto
    have b: "\<forall>st \<in> set (filter (\<lambda>st. \<not> all_saps st) xs @ [x]). \<forall>st' \<in> set (filter (\<lambda>st. \<not> all_saps st) xs @ [x]).
        uint (sap_candidate K ctx st) * uint (timescale st') < 2 ^ 64"
      using snoc.prems(2) by auto
    show ?thesis
      unfolding f
      using pool_min_step [OF ih(4) c b] ih False
      by (simp add: scan_stream_flags [OF cx] scan_stream_hard [OF cx False])
  qed
qed

text \<open>
  C1, as the code has it. When every stream holds a sync-point candidate
  (with a timescale that is not 0, and products that fit 64 bits), the first
  block of \<open>check_gop_split\<close> sets the cut candidate to the candidate of a
  stream of the deciding pool, the streams with sparse sync points when
  there is one and the all-sync streams otherwise, and that candidate is the
  minimum of the pool under cross-multiplied comparison: for every stream of
  the pool the cut is less than or equal to its candidate. The candidates of
  the other pool are not looked at. Outside the size split, an accepted cut
  is that candidate.
\<close>

theorem cut_point_is_pool_minimum:
  assumes cand: "\<forall>st \<in> set sts. sap_candidate K ctx st \<noteq> 0 \<and> timescale st \<noteq> 0"
    and bound: "\<forall>st \<in> set sts. \<forall>st' \<in> set sts.
        uint (sap_candidate K ctx st) * uint (timescale st') < 2 ^ 64"
    and ne: "sts \<noteq> []"
  shows "\<exists>m \<in> set (cut_pool sts).
      compute_min_ts K ctx sts
        = Some (ctx\<lparr>min_ts_scale := timescale m, min_ts_computed := sap_candidate K ctx m\<rparr>, False)
      \<and> (\<forall>st \<in> set (cut_pool sts).
            uint (sap_candidate K ctx m) * uint (timescale st)
              \<le> uint (sap_candidate K ctx st) * uint (timescale m))
      \<and> (min_ts_scale ctx = 0 \<and> extract_mode ctx \<noteq> EXTRACT_SIZE \<longrightarrow>
            (case check_gop_split K ctx sts of
               Inr (True, c, s) \<Rightarrow>
                 cur_end c = \<lparr>num = sap_candidate K ctx m, den = ucast (timescale m)\<rparr>
             | _ \<Rightarrow> True))"
proof -
  let ?sc = "foldl (scan_stream K ctx) gop_scan_init sts"
  let ?H = "filter (\<lambda>st. \<not> all_saps st) sts"
  let ?E = "filter all_saps sts"
  have inv: "\<not> flush_all ?sc" "\<not> wait_for_sap ?sc" "\<not> has_empty_streams ?sc"
    "pool_min K ctx ?H (min_ts ?sc) (min_timescale ?sc)"
    "pool_min K ctx ?E (min_ts_a ?sc) (min_timescale_a ?sc)"
    using scan_invariant [OF cand bound] by simp_all
  have nz: "\<And>st. st \<in> set sts \<Longrightarrow> sap_candidate K ctx st \<noteq> 0" using cand by simp
  obtain m where m: "m \<in> set (cut_pool sts)"
    and cm: "compute_min_ts K ctx sts
        = Some (ctx\<lparr>min_ts_scale := timescale m, min_ts_computed := sap_candidate K ctx m\<rparr>, False)"
    and le: "\<forall>st \<in> set (cut_pool sts).
            uint (sap_candidate K ctx m) * uint (timescale st)
              \<le> uint (sap_candidate K ctx st) * uint (timescale m)"
  proof (cases "?H = []")
    case False
    then obtain x where x: "x \<in> set ?H" "min_ts ?sc = sap_candidate K ctx x"
      "min_timescale ?sc = timescale x"
      "\<forall>st \<in> set ?H. uint (min_ts ?sc) * uint (timescale st)
          \<le> uint (sap_candidate K ctx st) * uint (min_timescale ?sc)"
      using inv(4) by (auto simp: pool_min_def)
    have "min_ts ?sc \<noteq> 0" using x nz by auto
    then have "compute_min_ts K ctx sts
        = Some (ctx\<lparr>min_ts_scale := timescale x, min_ts_computed := sap_candidate K ctx x\<rparr>, False)"
      using inv x by (simp add: compute_min_ts_def Let_def)
    then show ?thesis using that [of x] x False by (simp add: cut_pool_def)
  next
    case True
    then have e: "?E \<noteq> []" using ne
      by (metis (mono_tags, lifting) filter_False filter_True filter_empty_conv)
    then obtain x where x: "x \<in> set ?E" "min_ts_a ?sc = sap_candidate K ctx x"
      "min_timescale_a ?sc = timescale x"
      "\<forall>st \<in> set ?E. uint (min_ts_a ?sc) * uint (timescale st)
          \<le> uint (sap_candidate K ctx st) * uint (min_timescale_a ?sc)"
      using inv(5) by (auto simp: pool_min_def)
    have h0: "min_ts ?sc = 0" using inv(4) True by (simp add: pool_min_def)
    have "min_ts_a ?sc \<noteq> 0" using x nz by auto
    then have "compute_min_ts K ctx sts
        = Some (ctx\<lparr>min_ts_scale := timescale x, min_ts_computed := sap_candidate K ctx x\<rparr>, False)"
      using inv x h0 by (simp add: compute_min_ts_def Let_def)
    then show ?thesis using that [of x] x True by (simp add: cut_pool_def)
  qed
  have "min_ts_scale ctx = 0 \<and> extract_mode ctx \<noteq> EXTRACT_SIZE \<longrightarrow>
            (case check_gop_split K ctx sts of
               Inr (True, c, s) \<Rightarrow>
                 cur_end c = \<lparr>num = sap_candidate K ctx m, den = ucast (timescale m)\<rparr>
             | _ \<Rightarrow> True)"
    using cm by (auto simp: check_gop_split_def split: sum.splits bool.splits)
  then show ?thesis using m cm le by blast
qed

theorem cut_point_is_pool_minimum_witness:
  "cut_pool [stV, stA] = [stV]
   \<and> sap_candidate K0 ctxS stV = 10000 \<and> sap_candidate K0 ctxS stA = 20
   \<and> compute_min_ts K0 ctxS [stV, stA]
       = Some (ctxS\<lparr>min_ts_scale := 1000, min_ts_computed := 10000\<rparr>, False)"
proof -
  have c: "sap_candidate K0 ctxS stV = 10000" "sap_candidate K0 ctxS stA = 20"
    "timescale stV = 1000" "timescale stA = 1000"
    by code_simp+
  have p: "cut_pool [stV, stA] = [stV]"
    by code_simp
  have "\<exists>m \<in> set (cut_pool [stV, stA]).
      compute_min_ts K0 ctxS [stV, stA]
        = Some (ctxS\<lparr>min_ts_scale := timescale m, min_ts_computed := sap_candidate K0 ctxS m\<rparr>,
                False)"
    using cut_point_is_pool_minimum [where K = K0 and ctx = ctxS and sts = "[stV, stA]"]
    by (simp add: c) blast
  then show ?thesis by (simp add: p c)
qed

text \<open>
  C1 as it was stated fails in two ways. With a video stream whose second
  sync point is at 10000/1000 and an audio stream whose candidate is at
  20/1000, the accepted cut is 10000/1000, after the audio candidate: the
  all-sync pool is used only when the other pool gives nothing. And with
  three all-sync streams of which the second has a single packet, hence no
  candidate, the accepted cut is the candidate 20 of the third stream, after
  the candidate 10 of the first: a stream without candidate resets the
  running minimum of its pool.
\<close>

theorem cut_point_not_minimum_over_both_pools:
  "(case check_gop_split K0 ctxS [stV, stA] of
      Inl e \<Rightarrow> False
    | Inr (b, c, s) \<Rightarrow> b \<and> cur_end c = \<lparr>num = 10000, den = 1000\<rparr>)
   \<and> sap_candidate K0 ctxS stA = 20 \<and> timescale stA = 1000
   \<and> (case check_gop_split K0 ctxS [stA1, stA2, stA3] of
        Inl e \<Rightarrow> False
      | Inr (b, c, s) \<Rightarrow> b \<and> cur_end c = \<lparr>num = 20, den = 1000\<rparr>)
   \<and> sap_candidate K0 ctxS stA1 = 10 \<and> timescale stA1 = 1000"
  by code_simp

subsection \<open>Splitting a raw-audio packet\<close>















subsection \<open>Real-time regulation\<close>

text \<open>
  Rounding to a double keeps a number below \<open>2\<^sup>5\<^sup>3\<close> between the integers
  around it, and is exact on the integers below \<open>2\<^sup>5\<^sup>3\<close>.
\<close>

lemma bit_length_nonneg: "0 \<le> bit_length n"
proof (induction n rule: bit_length.induct)
  case (1 n)
  then show ?case by (subst bit_length.simps) simp
qed

lemma bit_length_le: "n < 2 ^ k \<Longrightarrow> bit_length n \<le> int k"
proof (induction k arbitrary: n)
  case 0
  then show ?case by (subst bit_length.simps) simp
next
  case (Suc k)
  show ?case
  proof (cases "n \<le> 0")
    case True
    then show ?thesis by (subst bit_length.simps) simp
  next
    case False
    have "n div 2 < 2 ^ k" using Suc.prems by simp
    then have "bit_length (n div 2) \<le> int k" by (rule Suc.IH)
    then show ?thesis using False by (subst bit_length.simps) simp
  qed
qed

lemma ilog2_le:
  assumes "a < 2 ^ 53"
  shows "ilog2 a \<le> 52"
proof (cases "1 \<le> a")
  case True
  have "\<lfloor>a\<rfloor> < 2 ^ 53" using assms by (simp add: floor_less_iff)
  then have "bit_length \<lfloor>a\<rfloor> \<le> 53" using bit_length_le [of "\<lfloor>a\<rfloor>" 53] by simp
  then show ?thesis using True by (simp add: ilog2_def)
next
  case False
  then show ?thesis using bit_length_nonneg [of "\<lceil>1 / a\<rceil> - 1"] by (simp add: ilog2_def)
qed

lemma round_even_ge:
  assumes "of_int z \<le> y"
  shows "z \<le> round_even y"
proof -
  have "z \<le> \<lfloor>y\<rfloor>" using assms by (simp add: le_floor_iff)
  then show ?thesis by (simp add: round_even_def Let_def)
qed

lemma round_even_le:
  assumes "y \<le> of_int z"
  shows "round_even y \<le> z"
proof -
  have f: "\<lfloor>y\<rfloor> \<le> z" using assms by (simp add: floor_le_iff)
  show ?thesis
  proof (cases "y - of_int \<lfloor>y\<rfloor> < 1 / 2")
    case True
    then show ?thesis using f by (simp add: round_even_def Let_def)
  next
    case False
    then have "of_int \<lfloor>y\<rfloor> < y" by simp
    then have "of_int \<lfloor>y\<rfloor> < (of_int z :: real)" using assms by simp
    then have "\<lfloor>y\<rfloor> + 1 \<le> z" by simp
    then show ?thesis using f by (simp add: round_even_def Let_def)
  qed
qed

lemma round_double_bounds:
  assumes pos: "0 < x" and lt: "x < 2 ^ 53"
  shows "\<exists>v. round_double x = Finite v
           \<and> (\<forall>z :: int. of_int z \<le> x \<longrightarrow> of_int z \<le> v)
           \<and> (\<forall>z :: int. x \<le> of_int z \<longrightarrow> v \<le> of_int z)"
proof -
  define e where "e = max (ilog2 x - 52) (- 1074)"
  define k where "k = nat (- e)"
  define v where "v = of_int (round_even (x * 2 ^ k)) / (2 ^ k :: real)"
  have e0: "e \<le> 0" using ilog2_le [OF lt] by (simp add: e_def)
  have p: "pow2 e = 1 / 2 ^ k"
    using e0 by (cases "e = 0") (simp_all add: pow2_def k_def)
  have lo: "of_int z \<le> v" if "of_int z \<le> x" for z :: int
  proof -
    have "of_int (z * 2 ^ k) \<le> x * 2 ^ k" using that by simp
    then have "z * 2 ^ k \<le> round_even (x * 2 ^ k)" by (rule round_even_ge)
    then have "(of_int (z * 2 ^ k) :: real) \<le> of_int (round_even (x * 2 ^ k))"
      by (simp only: of_int_le_iff)
    then show ?thesis by (simp add: v_def field_simps)
  qed
  have hi: "v \<le> of_int z" if "x \<le> of_int z" for z :: int
  proof -
    have "x * 2 ^ k \<le> of_int (z * 2 ^ k)" using that by simp
    then have "round_even (x * 2 ^ k) \<le> z * 2 ^ k" by (rule round_even_le)
    then have "(of_int (round_even (x * 2 ^ k)) :: real) \<le> of_int (z * 2 ^ k)"
      by (simp only: of_int_le_iff)
    then show ?thesis by (simp add: v_def field_simps)
  qed
  have "v \<le> of_int (2 ^ 53)" using lt by (intro hi) simp
  then have small: "\<not> 2 ^ 1024 \<le> v"
  proof -
    assume a: "v \<le> of_int (2 ^ 53)"
    have "(2 :: real) ^ 53 < 2 ^ 1024" by (rule power_strict_increasing) simp_all
    then show ?thesis using a by simp
  qed
  have r: "round_double x = Finite v"
    using pos small
    by (simp add: round_double_def Let_def e_def [symmetric] p v_def)
  show ?thesis using r lo hi by blast
qed

lemma round_double_int:
  assumes n0: "0 \<le> n" and n53: "n < 2 ^ 53"
  shows "round_double (of_int n) = Finite (of_int n)"
proof (cases "n = 0")
  case True
  then show ?thesis by (simp add: round_double_def)
next
  case False
  then have pos: "0 < (of_int n :: real)" using n0 by simp
  have lt: "(of_int n :: real) < 2 ^ 53"
  proof -
    have "(of_int n :: real) < of_int (2 ^ 53)" using n53 by (simp only: of_int_less_iff)
    then show ?thesis by simp
  qed
  obtain v where r: "round_double (of_int n) = Finite v"
    and lo: "\<forall>z :: int. of_int z \<le> (of_int n :: real) \<longrightarrow> of_int z \<le> v"
    and hi: "\<forall>z :: int. (of_int n :: real) \<le> of_int z \<longrightarrow> v \<le> of_int z"
    using round_double_bounds [OF pos lt] by blast
  have "of_int n \<le> v" using lo by blast
  moreover have "v \<le> of_int n" using hi by blast
  ultimately have "v = of_int n" by simp
  then show ?thesis using r by simp
qed

text \<open>
  The quotient of a whole number by a positive finite speed, cast to \<open>u64\<close>,
  is the exact quotient rounded down or up to a whole number.
\<close>

lemma scaled_bounds:
  assumes s: "0 < s" and n0: "0 \<le> n" and q: "of_int n / s < 2 ^ 53"
  shows "\<lfloor>of_int n / s\<rfloor> \<le> uint (u64_of_double (double_div (Finite (of_int n)) (Finite s)))
       \<and> uint (u64_of_double (double_div (Finite (of_int n)) (Finite s))) \<le> \<lceil>of_int n / s\<rceil>"
proof (cases "n = 0")
  case True
  then show ?thesis using s by (simp add: round_double_def)
next
  case False
  define x where "x = (of_int n :: real) / s"
  have "0 < (of_int n :: real)" using False n0 by simp
  then have pos: "0 < x" using s by (simp add: x_def)
  have x53: "x < 2 ^ 53" using q by (simp add: x_def)
  obtain v where r: "round_double x = Finite v"
    and lo: "\<forall>z :: int. of_int z \<le> x \<longrightarrow> of_int z \<le> v"
    and hi: "\<forall>z :: int. x \<le> of_int z \<longrightarrow> v \<le> of_int z"
    using round_double_bounds [OF pos x53] by blast
  have l1: "of_int \<lfloor>x\<rfloor> \<le> v" using lo by simp
  have h1: "v \<le> of_int \<lceil>x\<rceil>" using hi by simp
  have f0: "0 \<le> \<lfloor>x\<rfloor>" using pos by simp
  have v0: "0 \<le> v" using l1 f0 by linarith
  have fl: "\<lfloor>x\<rfloor> \<le> \<lfloor>v\<rfloor>" using l1 by (simp add: le_floor_iff)
  have fh: "\<lfloor>v\<rfloor> \<le> \<lceil>x\<rceil>" using h1 by (simp add: floor_le_iff)
  have c53: "\<lceil>x\<rceil> \<le> 2 ^ 53"
  proof -
    have "x \<le> of_int (2 ^ 53)" using x53 by simp
    then show ?thesis by (simp only: ceiling_le_iff)
  qed
  have u: "uint (word_of_int \<lfloor>v\<rfloor> :: u64) = \<lfloor>v\<rfloor>"
  proof -
    have "0 \<le> \<lfloor>v\<rfloor>" using v0 by simp
    moreover have "(2 :: int) ^ 53 < 2 ^ 64" by simp
    then have "\<lfloor>v\<rfloor> < 2 ^ 64" using fh c53 by linarith
    ultimately show ?thesis by (simp add: uint_word_of_int take_bit_eq_mod)
  qed
  have nz: "s \<noteq> 0" using s by simp
  have "u64_of_double (double_div (Finite (of_int n)) (Finite s)) = word_of_int \<lfloor>v\<rfloor>"
    using nz r v0 by (simp add: x_def [symmetric])
  then show ?thesis using u fl fh by (simp add: x_def [symmetric])
qed

lemma speed_scale_bounds:
  assumes sp: "speed ctx = Finite s" and s: "s \<noteq> 0" and d: "uint d < 2 ^ 53"
    and q: "of_int (uint d) / \<bar>s\<bar> < 2 ^ 53"
  shows "\<lfloor>of_int (uint d) / \<bar>s\<bar>\<rfloor> \<le> uint (speed_scale ctx d)
       \<and> uint (speed_scale ctx d) \<le> \<lceil>of_int (uint d) / \<bar>s\<bar>\<rceil>"
proof -
  have ex: "double_of_u64 d = Finite (of_int (uint d))"
    unfolding double_of_u64_def using d by (intro round_double_int) simp_all
  have a: "0 < \<bar>s\<bar>" using s by simp
  have sc: "speed_scale ctx d = u64_of_double (double_div (Finite (of_int (uint d))) (Finite \<bar>s\<bar>))"
  proof (cases "0 < s")
    case True
    then show ?thesis unfolding speed_scale_def sp ex by simp
  next
    case False
    then have "s < 0" using s by simp
    then show ?thesis unfolding speed_scale_def sp ex by simp
  qed
  show ?thesis
    unfolding sc using scaled_bounds [OF a _ q] by simp
qed

lemma speed_scale_zero: "speed ctx = Finite 0 \<Longrightarrow> speed_scale ctx d = d"
  by (simp add: speed_scale_def)

text \<open>
  Once the clock is anchored and the timestamp is known, the real-time block
  is one test on the media time, the anchors and the scaled difference.
\<close>

lemma rt_regulate_anchored:
  assumes on: "rt ctx \<noteq> REFRAME_RT_OFF"
    and known: "pck_dts pck \<noteq> GF_FILTER_NO_TS K \<or> pck_cts pck \<noteq> GF_FILTER_NO_TS K"
    and ts: "timescale (sts sid) \<noteq> 0"
    and anch: "sys_clock_at_init (sts (clock_stream ctx sid)) \<noteq> 0"
    and c: "c = clock_stream ctx sid"
    and m: "m = media_time_us K (sts sid) pck"
    and q: "q = speed_scale ctx (m - cts_us_at_init (sts c))"
    and el: "el = clock_val ctx - sys_clock_at_init (sts c)"
    and ctx1: "ctx1 = (if rt ctx = REFRAME_RT_SYNC \<and> clock ctx = None
                       then ctx\<lparr>clock := Some sid\<rparr> else ctx)"
  shows "rt_regulate K ctx sts sid pck =
     (if m < cts_us_at_init (sts c) \<or> q \<le> el + RT_PRECISION_US then Inr (True, ctx1, sts, c)
      else Inr (False,
             ctx1\<lparr>reschedule_in :=
                    (if reschedule_in ctx = 0 then q - el
                     else if q - el < reschedule_in ctx then q - el
                     else reschedule_in ctx)\<rparr>,
             sts, c))"
proof -
  have k: "(if pck_dts pck = GF_FILTER_NO_TS K then pck_cts pck else pck_dts pck)
      \<noteq> GF_FILTER_NO_TS K"
    using known by simp
  have c1: "(if rt ctx = REFRAME_RT_SYNC
             then (case clock ctx1 of Some x \<Rightarrow> x | None \<Rightarrow> sid) else sid) = c"
    by (simp add: c ctx1 clock_stream_def split: option.splits)
  have r1: "reschedule_in ctx1 = reschedule_in ctx" by (simp add: ctx1)
  have a: "sys_clock_at_init (sts c) \<noteq> 0" using anch c by simp
  have m': "((if pck_dts pck = GF_FILTER_NO_TS K then pck_cts pck else pck_dts pck)
              + tk_delay (sts sid)) * 1000000 div ucast (timescale (sts sid)) = m"
    by (simp add: m media_time_us_def)
  show ?thesis
    unfolding rt_regulate_def Let_def ctx1 [symmetric] c1 m'
    using on k ts a r1
    by (simp add: q el)
qed

text \<open>The scaled difference of the concrete inputs, at the speeds 1.0 and 2.0.\<close>

lemma ilog2_half: "ilog2 (4001 / 2) = 10"
  by (simp add: ilog2_def bit_length.simps)

lemma round_double_half: "round_double (4001 / 2) = Finite (4001 / 2)"
  by (simp add: round_double_def ilog2_half pow2_def round_even_def Let_def)

lemma double_of_u64_4001: "double_of_u64 4001 = Finite 4001"
  unfolding double_of_u64_def using round_double_int [of 4001] by simp

lemma speed_scale_one: "speed_scale ctxRT 4001 = 4001"
proof -
  have s: "speed ctxRT = Finite 1" by (simp add: ctxRT_def ctx0_def)
  have "round_double 4001 = Finite 4001" using round_double_int [of 4001] by simp
  then show ?thesis unfolding speed_scale_def s double_of_u64_4001 by simp
qed

lemma speed_scale_two: "speed_scale ctxRT2 4001 = 2000"
proof -
  have s: "speed ctxRT2 = Finite 2" by (simp add: ctxRT2_def)
  show ?thesis unfolding speed_scale_def s double_of_u64_4001
    by (simp add: round_double_half)
qed

lemma rt_values:
  "clock_stream ctxRT 0 = 0" "clock_stream ctxRT2 0 = 0"
  "media_time_us K0 stRT pckRT = 4001" "cts_us_at_init stRT = 0"
  "rt_media_diff K0 ctxRT (\<lambda>i. stRT) 0 pckRT = 4001"
  "rt_media_diff K0 ctxRT2 (\<lambda>i. stRT) 0 pckRT = 4001"
  "rt_elapsed ctxRT (\<lambda>i. stRT) 0 = 0" "rt_elapsed ctxRT2 (\<lambda>i. stRT) 0 = 0"
  "reschedule_in ctxRT = 0"
  by (simp_all add: clock_stream_def media_time_us_def rt_media_diff_def rt_elapsed_def
      ctxRT2_def ctxRT_def ctx0_def stRT_def st0_def pckRT_def pck0_def K0_def)

text \<open>
  C7, as the code has it. In real-time mode, for a packet with a known
  timestamp on a stream with a timescale, once the clock of the stream (the
  shared clock in the mode sync) is anchored: the packet is eligible if and
  only if its media time is before the anchor or \<open>elapsed + 2000 \<ge> q\<close>, in
  64-bit arithmetic, where \<open>elapsed\<close> is the wall clock minus its anchor and
  \<open>q\<close> is \<open>speed_scale\<close> of the media time since the anchor. An eligible
  packet leaves \<open>reschedule_in\<close> alone; an ineligible one sets it to its wait
  \<open>q - elapsed\<close> when it is 0 and to the minimum of its value and the wait
  otherwise. For a finite speed \<open>s\<close> other than 0, with the media time since
  the anchor and its quotient by \<open>|s|\<close> below \<open>2\<^sup>5\<^sup>3\<close>, \<open>q\<close> is that quotient
  rounded down or up to a whole number of microseconds; hence a packet is
  eligible whenever \<open>elapsed + 2000\<close> has reached the quotient, and an
  eligible packet not before the anchor has its quotient less than one
  microsecond above \<open>elapsed + 2000\<close>. For the speed 0, \<open>q\<close> is the media
  time since the anchor itself.
\<close>

theorem rt_eligibility:
  assumes on: "rt ctx \<noteq> REFRAME_RT_OFF"
    and known: "pck_dts pck \<noteq> GF_FILTER_NO_TS K \<or> pck_cts pck \<noteq> GF_FILTER_NO_TS K"
    and ts: "timescale (sts sid) \<noteq> 0"
    and anch: "sys_clock_at_init (sts (clock_stream ctx sid)) \<noteq> 0"
  shows "\<exists>e ctx'.
      rt_regulate K ctx sts sid pck = Inr (e, ctx', sts, clock_stream ctx sid)
      \<and> (e \<longleftrightarrow>
            media_time_us K (sts sid) pck < cts_us_at_init (sts (clock_stream ctx sid))
            \<or> speed_scale ctx (rt_media_diff K ctx sts sid pck)
                 \<le> rt_elapsed ctx sts sid + RT_PRECISION_US)
      \<and> (e \<longrightarrow> reschedule_in ctx' = reschedule_in ctx)
      \<and> (\<not> e \<longrightarrow>
            reschedule_in ctx'
              = (let wait = speed_scale ctx (rt_media_diff K ctx sts sid pck)
                              - rt_elapsed ctx sts sid
                 in if reschedule_in ctx = 0 then wait else min (reschedule_in ctx) wait))
      \<and> (\<forall>s. speed ctx = Finite s \<and> s \<noteq> 0
               \<and> uint (rt_media_diff K ctx sts sid pck) < 2 ^ 53
               \<and> real_of_int (uint (rt_media_diff K ctx sts sid pck)) / \<bar>s\<bar> < 2 ^ 53 \<longrightarrow>
             \<lfloor>real_of_int (uint (rt_media_diff K ctx sts sid pck)) / \<bar>s\<bar>\<rfloor>
               \<le> uint (speed_scale ctx (rt_media_diff K ctx sts sid pck))
             \<and> uint (speed_scale ctx (rt_media_diff K ctx sts sid pck))
                 \<le> \<lceil>real_of_int (uint (rt_media_diff K ctx sts sid pck)) / \<bar>s\<bar>\<rceil>
             \<and> (cts_us_at_init (sts (clock_stream ctx sid)) \<le> media_time_us K (sts sid) pck
                 \<and> uint (rt_elapsed ctx sts sid) + 2000 < 2 ^ 64 \<longrightarrow>
                  (real_of_int (uint (rt_media_diff K ctx sts sid pck)) / \<bar>s\<bar>
                     \<le> real_of_int (uint (rt_elapsed ctx sts sid) + 2000) \<longrightarrow> e)
                  \<and> (e \<longrightarrow> real_of_int (uint (rt_media_diff K ctx sts sid pck)) / \<bar>s\<bar>
                              < real_of_int (uint (rt_elapsed ctx sts sid) + 2000) + 1)))
      \<and> (speed ctx = Finite 0 \<longrightarrow>
            speed_scale ctx (rt_media_diff K ctx sts sid pck) = rt_media_diff K ctx sts sid pck)"
proof -
  define c where "c = clock_stream ctx sid"
  define m where "m = media_time_us K (sts sid) pck"
  define d where "d = rt_media_diff K ctx sts sid pck"
  define q where "q = speed_scale ctx d"
  define el where "el = rt_elapsed ctx sts sid"
  define ctx1 where "ctx1 = (if rt ctx = REFRAME_RT_SYNC \<and> clock ctx = None
                       then ctx\<lparr>clock := Some sid\<rparr> else ctx)"
  define e where "e \<longleftrightarrow> m < cts_us_at_init (sts c) \<or> q \<le> el + RT_PRECISION_US"
  define ctx' where "ctx' = (if e then ctx1 else ctx1\<lparr>reschedule_in :=
                    (if reschedule_in ctx = 0 then q - el
                     else if q - el < reschedule_in ctx then q - el
                     else reschedule_in ctx)\<rparr>)"
  have d': "d = m - cts_us_at_init (sts c)" by (simp add: d_def rt_media_diff_def m_def c_def)
  have el': "el = clock_val ctx - sys_clock_at_init (sts c)"
    by (simp add: el_def rt_elapsed_def c_def)
  have q': "q = speed_scale ctx (m - cts_us_at_init (sts c))" by (simp add: q_def d')
  note r = rt_regulate_anchored [OF on known ts anch c_def m_def q' el' ctx1_def]
  have r1: "reschedule_in ctx1 = reschedule_in ctx" by (simp add: ctx1_def)
  have mn: "\<And>w r :: u64. (if w < r then w else r) = min r w"
    by (auto simp: min_def)
  have A: "rt_regulate K ctx sts sid pck = Inr (e, ctx', sts, c)"
    using r by (simp add: e_def ctx'_def)
  have B: "e \<longrightarrow> reschedule_in ctx' = reschedule_in ctx"
    by (simp add: ctx'_def r1)
  have C: "\<not> e \<longrightarrow> reschedule_in ctx'
              = (let wait = q - el
                 in if reschedule_in ctx = 0 then wait else min (reschedule_in ctx) wait)"
    by (simp add: ctx'_def Let_def mn)
  have D: "\<lfloor>real_of_int (uint d) / \<bar>s\<bar>\<rfloor> \<le> uint q
             \<and> uint q \<le> \<lceil>real_of_int (uint d) / \<bar>s\<bar>\<rceil>
             \<and> (cts_us_at_init (sts c) \<le> m \<and> uint el + 2000 < 2 ^ 64 \<longrightarrow>
                  (real_of_int (uint d) / \<bar>s\<bar> \<le> real_of_int (uint el + 2000) \<longrightarrow> e)
                  \<and> (e \<longrightarrow> real_of_int (uint d) / \<bar>s\<bar> < real_of_int (uint el + 2000) + 1))"
    if h: "speed ctx = Finite s \<and> s \<noteq> 0 \<and> uint d < 2 ^ 53
             \<and> real_of_int (uint d) / \<bar>s\<bar> < 2 ^ 53" for s
  proof -
    have b: "\<lfloor>real_of_int (uint d) / \<bar>s\<bar>\<rfloor> \<le> uint q"
      "uint q \<le> \<lceil>real_of_int (uint d) / \<bar>s\<bar>\<rceil>"
      using speed_scale_bounds [of ctx s d] h by (simp_all add: q_def)
    have w: "(real_of_int (uint d) / \<bar>s\<bar> \<le> real_of_int (uint el + 2000) \<longrightarrow> e)
           \<and> (e \<longrightarrow> real_of_int (uint d) / \<bar>s\<bar> < real_of_int (uint el + 2000) + 1)"
      if g: "cts_us_at_init (sts c) \<le> m \<and> uint el + 2000 < 2 ^ 64"
    proof -
      have ue: "uint (el + RT_PRECISION_US) = uint el + 2000"
        using g uint_add_lem [of el RT_PRECISION_US] by (simp add: RT_PRECISION_US_def)
      have nb: "\<not> m < cts_us_at_init (sts c)" using g by (simp add: not_less)
      have "q \<le> el + RT_PRECISION_US \<longleftrightarrow> uint q \<le> uint el + 2000"
        by (simp only: word_le_def ue)
      then have ee: "e \<longleftrightarrow> uint q \<le> uint el + 2000"
        using nb by (simp only: e_def) simp
      show ?thesis
      proof (intro conjI impI)
        assume "real_of_int (uint d) / \<bar>s\<bar> \<le> real_of_int (uint el + 2000)"
        then have "\<lceil>real_of_int (uint d) / \<bar>s\<bar>\<rceil> \<le> uint el + 2000"
          by (simp only: ceiling_le_iff)
        then show e using b(2) ee by linarith
      next
        assume e
        then have "\<lfloor>real_of_int (uint d) / \<bar>s\<bar>\<rfloor> \<le> uint el + 2000"
          using b(1) ee by linarith
        then show "real_of_int (uint d) / \<bar>s\<bar> < real_of_int (uint el + 2000) + 1"
          by (simp only: floor_le_iff)
      qed
    qed
    show ?thesis using b w by blast
  qed
  have E: "speed ctx = Finite 0 \<longrightarrow> q = d"
    by (simp add: q_def speed_scale_zero)
  have G: "e \<longleftrightarrow> m < cts_us_at_init (sts c) \<or> q \<le> el + RT_PRECISION_US"
    by (simp add: e_def)
  have "rt_regulate K ctx sts sid pck = Inr (e, ctx', sts, c)
      \<and> (e \<longleftrightarrow> m < cts_us_at_init (sts c) \<or> q \<le> el + RT_PRECISION_US)
      \<and> (e \<longrightarrow> reschedule_in ctx' = reschedule_in ctx)
      \<and> (\<not> e \<longrightarrow>
            reschedule_in ctx'
              = (let wait = q - el
                 in if reschedule_in ctx = 0 then wait else min (reschedule_in ctx) wait))
      \<and> (\<forall>s. speed ctx = Finite s \<and> s \<noteq> 0 \<and> uint d < 2 ^ 53
               \<and> real_of_int (uint d) / \<bar>s\<bar> < 2 ^ 53 \<longrightarrow>
             \<lfloor>real_of_int (uint d) / \<bar>s\<bar>\<rfloor> \<le> uint q
             \<and> uint q \<le> \<lceil>real_of_int (uint d) / \<bar>s\<bar>\<rceil>
             \<and> (cts_us_at_init (sts c) \<le> m \<and> uint el + 2000 < 2 ^ 64 \<longrightarrow>
                  (real_of_int (uint d) / \<bar>s\<bar> \<le> real_of_int (uint el + 2000) \<longrightarrow> e)
                  \<and> (e \<longrightarrow> real_of_int (uint d) / \<bar>s\<bar>
                              < real_of_int (uint el + 2000) + 1)))
      \<and> (speed ctx = Finite 0 \<longrightarrow> q = d)"
    using A G B C D E by blast
  then show ?thesis
    unfolding q_def d_def c_def m_def el_def by blast
qed

theorem rt_eligibility_witness:
  "rt ctxRT \<noteq> REFRAME_RT_OFF \<and> sys_clock_at_init stRT \<noteq> 0 \<and> speed ctxRT = Finite 1
   \<and> (case rt_regulate K0 ctxRT (\<lambda>i. stRT) 0 pckRT of
         Inl f \<Rightarrow> False
       | Inr (e, c, s, i) \<Rightarrow> \<not> e \<and> reschedule_in c = 4001)"
proof -
  have h: "rt ctxRT \<noteq> REFRAME_RT_OFF"
    "pck_dts pckRT \<noteq> GF_FILTER_NO_TS K0 \<or> pck_cts pckRT \<noteq> GF_FILTER_NO_TS K0"
    "timescale ((\<lambda>i. stRT) (0 :: nat)) \<noteq> 0"
    "sys_clock_at_init ((\<lambda>i. stRT) (clock_stream ctxRT 0)) \<noteq> 0"
    by (simp_all add: ctxRT_def ctx0_def stRT_def st0_def pckRT_def pck0_def K0_def)
  have "\<exists>e ctx'. rt_regulate K0 ctxRT (\<lambda>i. stRT) 0 pckRT = Inr (e, ctx', \<lambda>i. stRT, 0)
      \<and> \<not> e \<and> reschedule_in ctx' = 4001"
    using rt_eligibility [where ctx = ctxRT and K = K0 and sts = "\<lambda>i. stRT" and sid = 0
        and pck = pckRT, OF h]
    by (auto simp: rt_values speed_scale_one RT_PRECISION_US_def)
  moreover have "speed ctxRT = Finite 1" "sys_clock_at_init stRT \<noteq> 0"
    by (simp_all add: ctxRT_def ctx0_def stRT_def st0_def)
  ultimately show ?thesis using h(1) by auto
qed

text \<open>
  C7 as it was stated fails by the fraction of a microsecond that the cast
  to \<open>u64\<close> drops. At the speed 2.0, with no wall-clock time elapsed since
  the anchor, a packet 4001 microseconds after the anchor is eligible: the
  double quotient 2000.5 is cast to 2000, although \<open>elapsed + 2000\<close> is less
  than 4001 / 2.
\<close>

theorem rt_eligible_before_quotient:
  "(case rt_regulate K0 ctxRT2 (\<lambda>i. stRT) 0 pckRT of
      Inl f \<Rightarrow> False
    | Inr (e, c, s, i) \<Rightarrow> e)
   \<and> speed ctxRT2 = Finite 2
   \<and> real_of_int (uint (rt_elapsed ctxRT2 (\<lambda>i. stRT) 0) + 2000)
        < real_of_int (uint (rt_media_diff K0 ctxRT2 (\<lambda>i. stRT) 0 pckRT)) / 2"
proof -
  have h: "rt ctxRT2 \<noteq> REFRAME_RT_OFF"
    "pck_dts pckRT \<noteq> GF_FILTER_NO_TS K0 \<or> pck_cts pckRT \<noteq> GF_FILTER_NO_TS K0"
    "timescale ((\<lambda>i. stRT) (0 :: nat)) \<noteq> 0"
    "sys_clock_at_init ((\<lambda>i. stRT) (clock_stream ctxRT2 0)) \<noteq> 0"
    by (simp_all add: ctxRT2_def ctxRT_def ctx0_def stRT_def st0_def pckRT_def pck0_def K0_def)
  have v: "clock_val ctxRT2 = 1000" "sys_clock_at_init stRT = 1000"
    by (simp_all add: ctxRT2_def ctxRT_def ctx0_def stRT_def st0_def)
  have on: "rt ctxRT2 = REFRAME_RT_ON" by (simp add: ctxRT2_def ctxRT_def)
  have "rt_regulate K0 ctxRT2 (\<lambda>i. stRT) 0 pckRT = Inr (True, ctxRT2, \<lambda>i. stRT, 0)"
    using rt_regulate_anchored [where ctx = ctxRT2 and K = K0 and sts = "\<lambda>i. stRT"
        and sid = 0 and pck = pckRT, OF h refl refl refl refl refl]
    by (simp add: rt_values v speed_scale_two RT_PRECISION_US_def on)
  moreover have "speed ctxRT2 = Finite 2" by (simp add: ctxRT2_def)
  ultimately show ?thesis by (simp add: rt_values)
qed

end
